theory Spec2Isabelle
  imports Main "HOL-Library.Multiset"
begin

section \<open>Strings\<close>

text \<open>
  Strings are byte strings. \<open>trim\<close> removes ASCII white space (tab, line feed, vertical
  tab, form feed, carriage return, space) at both ends and \<open>toLowerCase\<close> maps the ASCII
  capitals to their small letters, as \<open>String.prototype.trim\<close> and
  \<open>String.prototype.toLowerCase\<close> do on ASCII text.
\<close>

definition isSpace :: "char \<Rightarrow> bool" where
  "isSpace c = (let n = (of_char c :: nat) in (9 \<le> n \<and> n \<le> 13) \<or> n = 32)"

definition trim :: "string \<Rightarrow> string" where
  "trim s = rev (dropWhile isSpace (rev (dropWhile isSpace s)))"

definition toLowerChar :: "char \<Rightarrow> char" where
  "toLowerChar c =
     (let n = (of_char c :: nat) in if 65 \<le> n \<and> n \<le> 90 then char_of (n + 32) else c)"

definition toLowerCase :: "string \<Rightarrow> string" where
  "toLowerCase s = map toLowerChar s"

text \<open>
  \<open>s.replace(pat, rep)\<close> with a string pattern: the first occurrence of \<open>pat\<close> in \<open>s\<close> is
  replaced, and \<open>s\<close> is returned as it is when \<open>pat\<close> does not occur.
\<close>

fun replace :: "string \<Rightarrow> string \<Rightarrow> string \<Rightarrow> string" where
  "replace pat rep [] = (if pat = [] then rep else [])"
| "replace pat rep (c # s) =
     (if take (length pat) (c # s) = pat then rep @ drop (length pat) (c # s)
      else c # replace pat rep s)"

fun occurs :: "string \<Rightarrow> string \<Rightarrow> bool" where
  "occurs pat [] = (pat = [])"
| "occurs pat (c # s) = (take (length pat) (c # s) = pat \<or> occurs pat s)"

section \<open>Documents, errors and the response envelope\<close>

datatype objectId = ObjectId string

fun toString :: "objectId \<Rightarrow> string" where
  "toString (ObjectId s) = s"

text \<open>
  Casting a string to an ObjectId, as the store does with the id of a \<open>findById\<close>: the
  string must be 24 hexadecimal digits, and the id prints in lower case. (Drivers before
  BSON 5 also took any string of 12 characters; that is not modelled.)
\<close>

definition isHexDigit :: "char \<Rightarrow> bool" where
  "isHexDigit c =
     (let n = (of_char c :: nat)
      in (48 \<le> n \<and> n \<le> 57) \<or> (65 \<le> n \<and> n \<le> 70) \<or> (97 \<le> n \<and> n \<le> 102))"

definition castObjectId :: "string \<Rightarrow> objectId option" where
  "castObjectId s =
     (if length s = 24 \<and> list_all isHexDigit s then Some (ObjectId (toLowerCase s)) else None)"

text \<open>The user schema (\<open>_id\<close> is written \<open>user_id\<close>).\<close>

record user =
  user_id :: objectId
  name :: string
  email :: string
  password :: string
  role :: string
  profileImageUrl :: "string option"
  profileImageId :: "string option"

text \<open>
  The album schema (\<open>_id\<close> is written \<open>album_id\<close>). The free-form classification fields
  (labels, genres, tags, dimensions, connections, personal note, listening context) have no
  required validator and no handler reads them; they are left out.
\<close>

record album =
  album_id :: objectId
  title :: string
  artists :: "string list"
  format :: string
  releaseDate :: string
  coverArtUrl :: "string option"
  coverArtId :: "string option"
  addedBy :: objectId
  createdAt :: nat

text \<open>A user object whose \<open>password\<close> property has been removed.\<close>

record profile =
  profile_id :: objectId
  profile_name :: string
  profile_email :: string
  profile_role :: string
  profile_imageUrl :: "string option"
  profile_imageId :: "string option"

definition omitPassword :: "user \<Rightarrow> profile" where
  "omitPassword u =
     \<lparr>profile_id = user_id u, profile_name = name u, profile_email = email u,
      profile_role = role u, profile_imageUrl = profileImageUrl u,
      profile_imageId = profileImageId u\<rparr>"

text \<open>
  What a failed step raises. \<open>HttpError\<close> is what \<open>createError(status, message)\<close> builds;
  the others are the JavaScript and library errors, which carry no \<open>status\<close>.
\<close>

datatype error =
    HttpError nat string
  | ReferenceError string
  | TypeError string
  | ValidationError string
  | CastError string
  | MongoServerError string
  | JsonWebTokenError string
  | Error string

text \<open>
  Modelled from the spec: \<open>createError\<close> (src/utils/createError.js is not among the
  sources). "Every component signals failure by raising a typed error carrying a status
  code and message."
\<close>

definition createError :: "nat \<Rightarrow> string \<Rightarrow> error" where
  "createError status msg = HttpError status msg"

fun err_status :: "error \<Rightarrow> nat option" where
  "err_status (HttpError s m) = Some s"
| "err_status e = None"

fun err_message :: "error \<Rightarrow> string" where
  "err_message (HttpError s m) = m"
| "err_message (ReferenceError m) = m"
| "err_message (TypeError m) = m"
| "err_message (ValidationError m) = m"
| "err_message (CastError m) = m"
| "err_message (MongoServerError m) = m"
| "err_message (JsonWebTokenError m) = m"
| "err_message (Error m) = m"

text \<open>The values the handlers pass as \<open>data\<close>.\<close>

datatype payload =
    Null
  | Str string
  | AlbumDoc album
  | AlbumDocs "album list"
  | PopulatedAlbums "(album \<times> (objectId \<times> string \<times> string) option) list"
  | UserDoc user
  | UserDocs "user list"
  | UserObject profile

text \<open>
  JavaScript truthiness: \<open>null\<close> and the empty string are falsy; every object is truthy, and
  an array is an object, the empty array included.
\<close>

fun truthy :: "payload \<Rightarrow> bool" where
  "truthy Null = False"
| "truthy (Str s) = (s \<noteq> [])"
| "truthy (AlbumDoc a) = True"
| "truthy (AlbumDocs as) = True"
| "truthy (PopulatedAlbums as) = True"
| "truthy (UserDoc u) = True"
| "truthy (UserDocs us) = True"
| "truthy (UserObject p) = True"

record envelope =
  success :: bool
  message :: string
  data :: "payload option"

record response =
  statusCode :: nat
  json :: envelope

definition sendResponse :: "nat \<Rightarrow> bool \<Rightarrow> string \<Rightarrow> payload \<Rightarrow> response" where
  "sendResponse status ok msg d =
     \<lparr>statusCode = status,
      json = \<lparr>success = ok, message = msg, data = (if truthy d then Some d else None)\<rparr>\<rparr>"

text \<open>The error handler of index.js: \<open>err.status || 500\<close>, \<open>err.message || "Unexpected error"\<close>.\<close>

definition errorHandler :: "error \<Rightarrow> response" where
  "errorHandler err =
     sendResponse
       (case err_status err of None \<Rightarrow> 500 | Some s \<Rightarrow> if s = 0 then 500 else s)
       False
       (if err_message err = [] then ''Unexpected error'' else err_message err)
       Null"

section \<open>The world and the request\<close>

text \<open>
  The two collections, the public ids handed to \<open>cloudinary.uploader.destroy\<close>, and the
  tokens handed to \<open>verifyToken\<close>, each in call order.
\<close>

record world =
  users :: "user list"
  albums :: "album list"
  destroyed :: "string list"
  verified :: "string list"

record upload =
  path :: string
  filename :: string

text \<open>The decoded token payload.\<close>

record claim =
  claim_id :: objectId
  claim_email :: string

text \<open>
  The request (\<open>req.file\<close> is written \<open>req_file\<close>): the authorization header, the
  \<open>:id\<close> route parameter (read on the \<open>:id\<close> routes only), the parsed body, the uploaded
  file, and the \<open>user\<close> and \<open>album\<close> the middlewares attach.
\<close>

record 'b request =
  authorization :: "string option"
  params_id :: string
  body :: 'b
  req_file :: "upload option"
  user :: "user option"
  album :: "album option"

text \<open>
  The collections are lists in insertion order, and a lookup by id returns the first
  document with the id. \<open>User_findById\<close> is \<open>User.findById\<close> called with an ObjectId
  (\<open>req.user._id\<close>, the id of a verified token). \<open>Album_findById\<close> is \<open>Album.findById\<close> called
  with the string of the route: the string is cast first, and a string that is no ObjectId
  raises a \<open>CastError\<close> (the message is shortened).
\<close>

definition User_findById :: "user list \<Rightarrow> objectId \<Rightarrow> user option" where
  "User_findById us i = find (\<lambda>u. user_id u = i) us"

definition Album_findById :: "album list \<Rightarrow> string \<Rightarrow> error + album option" where
  "Album_findById as i =
     (case castObjectId i of
        None \<Rightarrow> Inl (CastError ''Cast to ObjectId failed'')
      | Some oid \<Rightarrow> Inr (find (\<lambda>a. album_id a = oid) as))"

text \<open>src/utils/deleteImage.js: nothing is done for a falsy id; a failure is only logged.\<close>

definition deleteImgCloudinary :: "string \<Rightarrow> world \<Rightarrow> world" where
  "deleteImgCloudinary publicId w =
     (if publicId = [] then w else w\<lparr>destroyed := destroyed w @ [publicId]\<rparr>)"

section \<open>The middlewares\<close>

text \<open>
  \<open>isAuth(allowedRoles)\<close>. \<open>verifyToken\<close> (src/utils/token.js is not among the sources) is a
  parameter: it returns the decoded payload or raises.
\<close>

definition isAuth ::
  "(string \<Rightarrow> error + claim) \<Rightarrow> string list \<Rightarrow> world \<Rightarrow> 'b request
     \<Rightarrow> world \<times> (error + 'b request)" where
  "isAuth verifyToken allowedRoles w req =
     (case map_option (replace ''Bearer '' []) (authorization req) of
        None \<Rightarrow> (w, Inl (createError 401 ''No token provided''))
      | Some token \<Rightarrow>
          if token = [] then (w, Inl (createError 401 ''No token provided''))
          else
            let w' = w\<lparr>verified := verified w @ [token]\<rparr> in
            (case verifyToken token of
               Inl e \<Rightarrow> (w', Inl e)
             | Inr decoded \<Rightarrow>
                 (case User_findById (users w') (claim_id decoded) of
                    None \<Rightarrow> (w', Inl (createError 401 ''Unauthorized: No user found in request''))
                  | Some u \<Rightarrow>
                      if allowedRoles \<noteq> [] \<and> role u \<notin> set allowedRoles
                      then (w', Inl (createError 403 (''Access denied for role: '' @ role u)))
                      else (w', Inr (req\<lparr>user := Some u\<rparr>)))))"

text \<open>\<open>isOwner\<close>: \<open>req.user.id\<close> is the string of \<open>req.user._id\<close>.\<close>

definition isOwner :: "world \<Rightarrow> 'b request \<Rightarrow> error + 'b request" where
  "isOwner w req =
     (case Album_findById (albums w) (params_id req) of
        Inl e \<Rightarrow> Inl e
      | Inr None \<Rightarrow> Inl (createError 404 ''Album not found'')
      | Inr (Some a) \<Rightarrow>
          (case user req of
             None \<Rightarrow> Inl (TypeError ''Cannot read properties of undefined (reading 'id')'')
           | Some u \<Rightarrow>
               if toString (addedBy a) \<noteq> toString (user_id u)
               then Inl (createError 403 ''Not authorized'')
               else Inr (req\<lparr>album := Some a\<rparr>)))"

section \<open>The albums controllers\<close>

text \<open>The body of \<open>POST /albums\<close> and \<open>PUT /albums/:id\<close>; \<open>None\<close> is an absent property.\<close>

record album_body =
  body_title :: "string option"
  body_artists :: "string list option"
  body_format :: "string option"
  body_releaseDate :: "string option"
  body_coverArtUrl :: "string option"
  body_coverArtId :: "string option"
  body_addedBy :: "objectId option"

definition formats :: "string list" where
  "formats = [''LP'', ''EP'', ''Reissue'', ''Live'', ''Compilation'', ''Box Set'', ''Holiday'',
     ''Instrumental'', ''Remix'', ''Soundtrack'', ''Mixtape'']"

text \<open>
  The query of \<open>postAlbum\<close>:
  \<open>{title: t, artists: {$all: qs, $size: qs.length}, addedBy: owner}\<close>. The stored
  \<open>title\<close> is compared as a string, \<open>$all\<close> asks that every element of \<open>qs\<close> occurs in the
  stored array (and matches nothing when \<open>qs\<close> is empty), \<open>$size\<close> that the stored array has
  that many elements.
\<close>

definition Album_findOne :: "album list \<Rightarrow> string \<Rightarrow> string list \<Rightarrow> objectId \<Rightarrow> album option" where
  "Album_findOne as t qs owner =
     find (\<lambda>a. title a = t \<and> (qs \<noteq> [] \<and> set qs \<subseteq> set (artists a))
                \<and> length (artists a) = length qs \<and> addedBy a = owner) as"

text \<open>
  \<open>new Album({...req.body, titleNormalized, artistsNormalized, addedBy})\<close>, the cover fields
  taken from the uploaded file, and the validation of \<open>save()\<close>. The schema has no path
  \<open>titleNormalized\<close> or \<open>artistsNormalized\<close>, so the document has none; its setters trim
  the strings; \<open>addedBy\<close> is the argument, whatever the body holds. A release date is a
  string, valid when it is not empty.
\<close>

definition Album_create ::
  "objectId \<Rightarrow> nat \<Rightarrow> album_body \<Rightarrow> objectId \<Rightarrow> upload option \<Rightarrow> error + album" where
  "Album_create newId now b owner f =
     (case (body_title b, body_format b, body_releaseDate b) of
        (Some t, Some fm, Some d) \<Rightarrow>
          let as = map trim (case body_artists b of None \<Rightarrow> [] | Some xs \<Rightarrow> xs) in
          if trim t = [] \<or> [] \<in> set as \<or> fm \<notin> set formats \<or> d = []
          then Inl (ValidationError ''Album validation failed'')
          else Inr \<lparr>album_id = newId, title = trim t, artists = as, format = fm,
                    releaseDate = d,
                    coverArtUrl = (case f of None \<Rightarrow> map_option trim (body_coverArtUrl b)
                                   | Some u \<Rightarrow> Some (trim (path u))),
                    coverArtId = (case f of None \<Rightarrow> map_option trim (body_coverArtId b)
                                  | Some u \<Rightarrow> Some (trim (filename u))),
                    addedBy = owner, createdAt = now\<rparr>
      | _ \<Rightarrow> Inl (ValidationError ''Album validation failed''))"

text \<open>The \<open>catch\<close> block of the handlers that take an upload.\<close>

definition cleanup :: "upload option \<Rightarrow> world \<Rightarrow> world" where
  "cleanup f w =
     (case f of None \<Rightarrow> w
      | Some u \<Rightarrow> if filename u \<noteq> [] then deleteImgCloudinary (filename u) w else w)"

text \<open>
  A handler returns the world it leaves and either the response it sent or the error it
  passed to \<open>next\<close>. \<open>newId\<close> and \<open>now\<close> are the \<open>_id\<close> and the \<open>createdAt\<close> the new document
  gets.
\<close>

definition postAlbum ::
  "objectId \<Rightarrow> nat \<Rightarrow> world \<Rightarrow> album_body request \<Rightarrow> world \<times> (error + response)" where
  "postAlbum newId now w req =
     (let saved =
        (case user req of
           None \<Rightarrow> Inl (TypeError ''Cannot read properties of undefined (reading '_id')'')
         | Some u \<Rightarrow>
             (case body_title (body req) of
                None \<Rightarrow> Inl (TypeError ''Cannot read properties of undefined (reading 'trim')'')
              | Some t \<Rightarrow>
                  let as = (case body_artists (body req) of None \<Rightarrow> [] | Some xs \<Rightarrow> xs);
                      normalizedTitle = toLowerCase (trim t);
                      normalizedArtists = map (\<lambda>a. toLowerCase (trim a)) as
                  in (case Album_findOne (albums w) normalizedTitle normalizedArtists (user_id u) of
                        Some albumExist \<Rightarrow>
                          Inl (createError 400 ''This album already exists in your collection'')
                      | None \<Rightarrow> Album_create newId now (body req) (user_id u) (req_file req))))
      in case saved of
           Inr albumSaved \<Rightarrow>
             (w\<lparr>albums := albums w @ [albumSaved]\<rparr>,
              Inr (sendResponse 201 True ''Album created successfully'' (AlbumDoc albumSaved)))
         | Inl e \<Rightarrow> (cleanup (req_file req) w, Inl e))"

text \<open>
  \<open>Album.findByIdAndUpdate(id, updates, {new: true, runValidators: true})\<close>: every property
  of \<open>updates\<close> that is a path of the schema is set on the first document with that id,
  after the validators of the updated paths have passed.
\<close>

definition applyUpdates :: "album_body \<Rightarrow> album \<Rightarrow> album" where
  "applyUpdates b a =
     a\<lparr>title := (case body_title b of None \<Rightarrow> title a | Some t \<Rightarrow> trim t),
       artists := (case body_artists b of None \<Rightarrow> artists a | Some xs \<Rightarrow> map trim xs),
       format := (case body_format b of None \<Rightarrow> format a | Some fm \<Rightarrow> fm),
       releaseDate := (case body_releaseDate b of None \<Rightarrow> releaseDate a | Some d \<Rightarrow> d),
       coverArtUrl := (case body_coverArtUrl b of None \<Rightarrow> coverArtUrl a | Some x \<Rightarrow> Some (trim x)),
       coverArtId := (case body_coverArtId b of None \<Rightarrow> coverArtId a | Some x \<Rightarrow> Some (trim x)),
       addedBy := (case body_addedBy b of None \<Rightarrow> addedBy a | Some i \<Rightarrow> i)\<rparr>"

definition updatesValid :: "album_body \<Rightarrow> bool" where
  "updatesValid b =
     ((case body_title b of None \<Rightarrow> True | Some t \<Rightarrow> trim t \<noteq> [])
      \<and> (case body_artists b of None \<Rightarrow> True | Some xs \<Rightarrow> [] \<notin> set (map trim xs))
      \<and> (case body_format b of None \<Rightarrow> True | Some fm \<Rightarrow> fm \<in> set formats)
      \<and> (case body_releaseDate b of None \<Rightarrow> True | Some d \<Rightarrow> d \<noteq> []))"

fun updateFirst :: "objectId \<Rightarrow> (album \<Rightarrow> album) \<Rightarrow> album list \<Rightarrow> album list" where
  "updateFirst i f [] = []"
| "updateFirst i f (a # as) = (if album_id a = i then f a # as else a # updateFirst i f as)"

definition Album_findByIdAndUpdate ::
  "album list \<Rightarrow> string \<Rightarrow> album_body \<Rightarrow> error + (album list \<times> album option)" where
  "Album_findByIdAndUpdate as i b =
     (case castObjectId i of
        None \<Rightarrow> Inl (CastError ''Cast to ObjectId failed'')
      | Some oid \<Rightarrow>
          if \<not> updatesValid b then Inl (ValidationError ''Validation failed'')
          else Inr (updateFirst oid (applyUpdates b) as,
                    map_option (applyUpdates b) (find (\<lambda>a. album_id a = oid) as)))"

definition updateAlbum :: "world \<Rightarrow> album_body request \<Rightarrow> world \<times> (error + response)" where
  "updateAlbum w req =
     (case Album_findById (albums w) (params_id req) of
        Inl e \<Rightarrow> (cleanup (req_file req) w, Inl e)
      | Inr None \<Rightarrow> (cleanup (req_file req) w, Inl (createError 404 ''Album not found''))
      | Inr (Some prev) \<Rightarrow>
          let updates = (case req_file req of None \<Rightarrow> body req
                         | Some f \<Rightarrow> (body req)\<lparr>body_coverArtUrl := Some (path f),
                                                body_coverArtId := Some (filename f)\<rparr>);
              newCoverArtId = (case req_file req of None \<Rightarrow> [] | Some f \<Rightarrow> filename f)
          in (case Album_findByIdAndUpdate (albums w) (params_id req) updates of
                Inl e \<Rightarrow> (cleanup (req_file req) w, Inl e)
              | Inr (as', updated) \<Rightarrow>
                  let w1 = w\<lparr>albums := as'\<rparr>;
                      w2 = (case coverArtId prev of
                              None \<Rightarrow> w1
                            | Some old \<Rightarrow>
                                if newCoverArtId \<noteq> [] \<and> old \<noteq> []
                                then deleteImgCloudinary old w1 else w1)
                  in (w2, Inr (sendResponse 200 True ''Album updated successfully''
                                 (case updated of None \<Rightarrow> Null | Some a \<Rightarrow> AlbumDoc a)))))"

definition getMyAlbums :: "world \<Rightarrow> 'b request \<Rightarrow> world \<times> (error + response)" where
  "getMyAlbums w req =
     (case user req of
        None \<Rightarrow> (w, Inl (TypeError ''Cannot read properties of undefined (reading '_id')''))
      | Some u \<Rightarrow>
          let myAlbums = rev (sort_key createdAt (filter (\<lambda>a. addedBy a = user_id u) (albums w)))
          in if myAlbums = []
             then (w, Inr (sendResponse 200 True ''You haven't added any albums yet'' (AlbumDocs [])))
             else (w, Inr (sendResponse 200 True ''Albums fetched successfully'' (AlbumDocs myAlbums))))"

definition getAlbumById :: "world \<Rightarrow> 'b request \<Rightarrow> world \<times> (error + response)" where
  "getAlbumById w req =
     (w, Inr (sendResponse 200 True ''Album fetched successfully''
                (case album req of None \<Rightarrow> Null | Some a \<Rightarrow> AlbumDoc a)))"

fun deleteFirst :: "('a \<Rightarrow> bool) \<Rightarrow> 'a list \<Rightarrow> 'a list" where
  "deleteFirst P [] = []"
| "deleteFirst P (x # xs) = (if P x then xs else x # deleteFirst P xs)"

text \<open>\<open>deleteAlbum\<close>, the same text in the albums and in the admin controllers.\<close>

definition deleteAlbum :: "world \<Rightarrow> 'b request \<Rightarrow> world \<times> (error + response)" where
  "deleteAlbum w req =
     (case album req of
        None \<Rightarrow> (w, Inl (TypeError ''Cannot read properties of undefined (reading 'coverArtId')''))
      | Some a \<Rightarrow>
          let w1 = (case coverArtId a of None \<Rightarrow> w
                    | Some c \<Rightarrow> if c \<noteq> [] then deleteImgCloudinary c w else w)
          in (w1\<lparr>albums := deleteFirst (\<lambda>x. album_id x = album_id a) (albums w1)\<rparr>,
              Inr (sendResponse 200 True ''Album deleted successfully'' (AlbumDoc a))))"

text \<open>What the client receives: the response sent, or the error handler's.\<close>

definition respond :: "world \<times> (error + response) \<Rightarrow> world \<times> response" where
  "respond r = (fst r, case snd r of Inl e \<Rightarrow> errorHandler e | Inr resp \<Rightarrow> resp)"

datatype albums_route = GET_albums | POST_albums | GET_albums_id | PUT_albums_id | DELETE_albums_id

text \<open>The albums router: \<open>isAuth([])\<close> on every route, \<open>isOwner\<close> on the \<open>:id\<close> routes.\<close>

definition albumsRouter ::
  "(string \<Rightarrow> error + claim) \<Rightarrow> objectId \<Rightarrow> nat \<Rightarrow> world \<Rightarrow> albums_route
     \<Rightarrow> album_body request \<Rightarrow> world \<times> response" where
  "albumsRouter verifyToken newId now w route req =
     (case isAuth verifyToken [] w req of
        (w', Inl e) \<Rightarrow> (w', errorHandler e)
      | (w', Inr req1) \<Rightarrow>
          (case route of
             GET_albums \<Rightarrow> respond (getMyAlbums w' req1)
           | POST_albums \<Rightarrow> respond (postAlbum newId now w' req1)
           | _ \<Rightarrow>
               (case isOwner w' req1 of
                  Inl e \<Rightarrow> (w', errorHandler e)
                | Inr req2 \<Rightarrow>
                    (case route of
                       GET_albums_id \<Rightarrow> respond (getAlbumById w' req2)
                     | PUT_albums_id \<Rightarrow> respond (updateAlbum w' req2)
                     | _ \<Rightarrow> respond (deleteAlbum w' req2)))))"

section \<open>The auth and users controllers\<close>

text \<open>
  The values a property of a JSON body can hold, as far as they are modelled: absent, and
  the JSON scalars. A number is an integer that JavaScript represents exactly and prints
  in plain decimal; arrays and objects are not modelled.
\<close>

datatype jsvalue = JUndefined | JNull | JBool bool | JNum int | JStr string

text \<open>\<open>!v\<close>: \<open>undefined\<close>, \<open>null\<close>, \<open>false\<close>, \<open>0\<close> and the empty string are falsy.\<close>

fun falsyValue :: "jsvalue \<Rightarrow> bool" where
  "falsyValue JUndefined = True"
| "falsyValue JNull = True"
| "falsyValue (JBool b) = (\<not> b)"
| "falsyValue (JNum n) = (n = 0)"
| "falsyValue (JStr s) = (s = [])"

text \<open>
  The number a string converts to when it is compared with a number: white space is
  trimmed, the empty string is 0, and a decimal integer literal with an optional sign is
  its value. Every other string is \<open>None\<close> (not a number); the literals with a fraction, an
  exponent or a radix prefix and \<open>Infinity\<close> are not modelled and are \<open>None\<close> too.
\<close>

definition isDigit :: "char \<Rightarrow> bool" where
  "isDigit c = (let n = (of_char c :: nat) in 48 \<le> n \<and> n \<le> 57)"

definition digitsValue :: "string \<Rightarrow> int option" where
  "digitsValue s =
     (if s \<noteq> [] \<and> list_all isDigit s
      then Some (foldl (\<lambda>n c. 10 * n + (int (of_char c) - 48)) 0 s) else None)"

definition toNumber :: "string \<Rightarrow> int option" where
  "toNumber s =
     (case trim s of
        [] \<Rightarrow> Some 0
      | c # r \<Rightarrow>
          if c = CHR ''-'' then map_option uminus (digitsValue r)
          else if c = CHR ''+'' then digitsValue r
          else digitsValue (c # r))"

text \<open>
  \<open>x == y\<close>, the loose comparison: a boolean is compared as the number 1 or 0, a number
  and a string are compared as numbers, \<open>undefined\<close> and \<open>null\<close> equal each other and nothing
  else, and two values of one type are compared as they are.
\<close>

fun boolAsNumber :: "jsvalue \<Rightarrow> jsvalue" where
  "boolAsNumber (JBool b) = JNum (if b then 1 else 0)"
| "boolAsNumber v = v"

fun looseEqPrim :: "jsvalue \<Rightarrow> jsvalue \<Rightarrow> bool" where
  "looseEqPrim (JNum a) (JNum b) = (a = b)"
| "looseEqPrim (JStr a) (JStr b) = (a = b)"
| "looseEqPrim (JNum a) (JStr s) = (toNumber s = Some a)"
| "looseEqPrim (JStr s) (JNum a) = (toNumber s = Some a)"
| "looseEqPrim JUndefined JUndefined = True"
| "looseEqPrim JUndefined JNull = True"
| "looseEqPrim JNull JUndefined = True"
| "looseEqPrim JNull JNull = True"
| "looseEqPrim x y = False"

definition looseEq :: "jsvalue \<Rightarrow> jsvalue \<Rightarrow> bool" where
  "looseEq x y = looseEqPrim (boolAsNumber x) (boolAsNumber y)"

text \<open>The decimal digits of a number, and the string the schema casts a value to.\<close>

function showDigits :: "int \<Rightarrow> string" where
  "showDigits n =
     (if n < 10 then [char_of (48 + n)]
      else showDigits (n div 10) @ [char_of (48 + n mod 10)])"
  by pat_completeness auto
termination
  by (relation "measure (\<lambda>n. nat n)") auto

declare showDigits.simps [simp del]

fun castString :: "jsvalue \<Rightarrow> string" where
  "castString (JStr s) = s"
| "castString (JNum n) = (if n < 0 then CHR ''-'' # showDigits (- n) else showDigits n)"
| "castString (JBool b) = (if b then ''true'' else ''false'')"
| "castString v = []"

text \<open>
  The body of the register, profile and password routes. The three fields of the password
  route are values of any modelled kind; for the other fields \<open>None\<close> is an absent property
  and \<open>Some\<close> a string. \<open>hash\<close> and \<open>compare\<close> stand for \<open>bcrypt.hash\<close> with a fresh salt
  and \<open>bcrypt.compare\<close>.
\<close>

record user_body =
  body_name :: "string option"
  body_email :: "string option"
  body_password :: "string option"
  body_role :: "string option"
  body_currentPassword :: jsvalue
  body_newPassword :: jsvalue
  body_confirmPassword :: jsvalue

definition falsy :: "string option \<Rightarrow> bool" where
  "falsy x = (case x of None \<Rightarrow> True | Some s \<Rightarrow> s = [])"

definition User_findOne :: "user list \<Rightarrow> string \<Rightarrow> user option" where
  "User_findOne us e = find (\<lambda>u. email u = e) us"

text \<open>
  \<open>new User(req.body)\<close> with the profile image of the upload, then \<open>save()\<close>: the setters
  (\<open>trim\<close>; \<open>lowercase\<close> on the email), the default role, the validators (\<open>required\<close>,
  \<open>minlength\<close> 8 on the password, the role's \<open>enum\<close>) and then the \<open>pre("save")\<close> hook,
  which hashes the password of a new document.
\<close>

definition User_create ::
  "(string \<Rightarrow> string) \<Rightarrow> objectId \<Rightarrow> user_body \<Rightarrow> upload option \<Rightarrow> error + user" where
  "User_create hash newId b f =
     (case (body_name b, body_email b, body_password b) of
        (Some n, Some e, Some p) \<Rightarrow>
          let r = (case body_role b of None \<Rightarrow> ''user'' | Some x \<Rightarrow> x) in
          if trim n = [] \<or> trim (toLowerCase e) = [] \<or> length (trim p) < 8
             \<or> r \<notin> set [''user'', ''admin'']
          then Inl (ValidationError ''User validation failed'')
          else Inr \<lparr>user_id = newId, name = trim n, email = trim (toLowerCase e),
                    password = hash (trim p), role = r,
                    profileImageUrl = map_option (\<lambda>u. trim (path u)) f,
                    profileImageId = map_option (\<lambda>u. trim (filename u)) f\<rparr>
      | _ \<Rightarrow> Inl (ValidationError ''User validation failed''))"

text \<open>
  \<open>registerUser\<close>. The email of the new document has passed the setters when the handler
  looks it up; a body without email matches no stored user, every stored user having one.
\<close>

definition registerUser ::
  "(string \<Rightarrow> string) \<Rightarrow> objectId \<Rightarrow> world \<Rightarrow> user_body request \<Rightarrow> world \<times> (error + response)" where
  "registerUser hash newId w req =
     (case (case body_email (body req) of None \<Rightarrow> None
            | Some e \<Rightarrow> User_findOne (users w) (trim (toLowerCase e))) of
        Some userExist \<Rightarrow>
          let w1 = (case req_file req of None \<Rightarrow> w | Some f \<Rightarrow> deleteImgCloudinary (filename f) w)
          in (cleanup (req_file req) w1, Inl (createError 400 ''This user already exists''))
      | None \<Rightarrow>
          (case User_create hash newId (body req) (req_file req) of
             Inl e \<Rightarrow> (cleanup (req_file req) w, Inl e)
           | Inr userDB \<Rightarrow>
               (w\<lparr>users := users w @ [userDB]\<rparr>,
                Inr (sendResponse 201 True ''User registered successfully'' (UserDoc userDB)))))"

text \<open>
  \<open>loginUser\<close>. The filter's email passes the schema's setters; \<open>generateToken\<close>
  (src/utils/token.js is not among the sources) is a parameter.
\<close>

definition loginUser ::
  "(string \<Rightarrow> string \<Rightarrow> bool) \<Rightarrow> (objectId \<Rightarrow> string \<Rightarrow> string) \<Rightarrow> world \<Rightarrow> user_body request
     \<Rightarrow> world \<times> (error + response)" where
  "loginUser compare generateToken w req =
     (case (case body_email (body req) of None \<Rightarrow> None
            | Some e \<Rightarrow> User_findOne (users w) (trim (toLowerCase e))) of
        None \<Rightarrow> (w, Inl (createError 404 ''User not found''))
      | Some u \<Rightarrow>
          (case body_password (body req) of
             None \<Rightarrow> (w, Inl (Error ''data and hash arguments required''))
           | Some p \<Rightarrow>
               if compare p (password u)
               then (w, Inr (sendResponse 200 True ''Token created successfully''
                               (Str (generateToken (user_id u) (email u)))))
               else (w, Inl (createError 401 ''Invalid credentials''))))"

datatype auth_route = POST_auth_register | POST_auth_login

text \<open>The auth router: both routes are public.\<close>

definition authRouter ::
  "(string \<Rightarrow> string) \<Rightarrow> (string \<Rightarrow> string \<Rightarrow> bool) \<Rightarrow> (objectId \<Rightarrow> string \<Rightarrow> string) \<Rightarrow> objectId
     \<Rightarrow> world \<Rightarrow> auth_route \<Rightarrow> user_body request \<Rightarrow> world \<times> response" where
  "authRouter hash compare generateToken newId w route req =
     (case route of
        POST_auth_register \<Rightarrow> respond (registerUser hash newId w req)
      | POST_auth_login \<Rightarrow> respond (loginUser compare generateToken w req))"

definition getMyProfile :: "world \<Rightarrow> 'b request \<Rightarrow> world \<times> (error + response)" where
  "getMyProfile w req =
     (case user req of
        None \<Rightarrow> (w, Inl (TypeError ''Cannot read properties of undefined (reading '_id')''))
      | Some me \<Rightarrow>
          (case User_findById (users w) (user_id me) of
             None \<Rightarrow> (w, Inl (createError 404 ''User not found''))
           | Some u \<Rightarrow>
               (w, Inr (sendResponse 200 True ''User fetched successfully''
                          (UserObject (omitPassword u))))))"

fun replaceUser :: "user \<Rightarrow> user list \<Rightarrow> user list" where
  "replaceUser u [] = []"
| "replaceUser u (x # xs) = (if user_id x = user_id u then u # xs else x # replaceUser u xs)"

text \<open>
  \<open>updateMyProfile\<close>. \<open>save()\<close> validates the required name and email and fails on the unique
  index when another user holds the email; the password is not modified, so the hook leaves
  it.
\<close>

definition updateMyProfile :: "world \<Rightarrow> user_body request \<Rightarrow> world \<times> (error + response)" where
  "updateMyProfile w req =
     (case user req of
        None \<Rightarrow> (w, Inl (TypeError ''Cannot read properties of undefined (reading '_id')''))
      | Some me \<Rightarrow>
          (case User_findById (users w) (user_id me) of
             None \<Rightarrow> (w, Inl (createError 404 ''User not found''))
           | Some u \<Rightarrow>
               if \<not> falsy (body_role (body req))
               then (w, Inl (createError 403 ''You are not allowed to change your role''))
               else if \<not> falsy (body_password (body req))
               then (w, Inl (createError 403
                 ''You are not allowed to change your password here. Use /users/change-password instead''))
               else
                 let u1 = (case body_name (body req) of None \<Rightarrow> u
                           | Some n \<Rightarrow> if n = [] then u else u\<lparr>name := trim n\<rparr>);
                     u2 = (case body_email (body req) of None \<Rightarrow> u1
                           | Some e \<Rightarrow> if e = [] then u1 else u1\<lparr>email := trim (toLowerCase e)\<rparr>);
                     w1 = (case req_file req of None \<Rightarrow> w
                           | Some f \<Rightarrow>
                               (case profileImageId u of None \<Rightarrow> w
                                | Some old \<Rightarrow> if old \<noteq> [] then deleteImgCloudinary old w else w));
                     u3 = (case req_file req of None \<Rightarrow> u2
                           | Some f \<Rightarrow> u2\<lparr>profileImageUrl := Some (trim (path f)),
                                          profileImageId := Some (trim (filename f))\<rparr>)
                 in if name u3 = [] \<or> email u3 = []
                    then (w1, Inl (ValidationError ''User validation failed''))
                    else if find (\<lambda>x. email x = email u3 \<and> user_id x \<noteq> user_id u3) (users w1) \<noteq> None
                    then (w1, Inl (MongoServerError ''E11000 duplicate key error''))
                    else (w1\<lparr>users := replaceUser u3 (users w1)\<rparr>,
                          Inr (sendResponse 200 True ''Profile updated successfully''
                                 (UserObject (omitPassword u3))))))"

text \<open>
  \<open>changeMyPassword\<close>. The two new passwords are compared with the loose \<open>!=\<close>.
  \<open>bcrypt.compare\<close> rejects a current password that is no string. \<open>newPassword.length\<close> is
  \<open>undefined\<close> for a number or a boolean, and \<open>undefined < 8\<close> is false. The assignment casts
  the new password to a string and trims it; \<open>save()\<close> checks its \<open>minlength\<close> and the hook
  hashes it when the assignment changed the stored value.
\<close>

definition changeMyPassword ::
  "(string \<Rightarrow> string) \<Rightarrow> (string \<Rightarrow> string \<Rightarrow> bool) \<Rightarrow> world \<Rightarrow> user_body request
     \<Rightarrow> world \<times> (error + response)" where
  "changeMyPassword hash compare w req =
     (let currentPassword = body_currentPassword (body req);
          newPassword = body_newPassword (body req);
          confirmPassword = body_confirmPassword (body req)
      in if falsyValue currentPassword \<or> falsyValue newPassword \<or> falsyValue confirmPassword
         then (w, Inl (createError 400 ''All fields are required''))
         else if \<not> looseEq newPassword confirmPassword
         then (w, Inl (createError 400 ''New passwords do not match''))
         else
           (case user req of
              None \<Rightarrow> (w, Inl (TypeError ''Cannot read properties of undefined (reading '_id')''))
            | Some me \<Rightarrow>
                (case User_findById (users w) (user_id me) of
                   None \<Rightarrow> (w, Inl (createError 404 ''User not found''))
                 | Some u \<Rightarrow>
                     (case currentPassword of
                        JStr cur \<Rightarrow>
                          if \<not> compare cur (password u)
                          then (w, Inl (createError 401 ''Current password is incorrect''))
                          else if (case newPassword of JStr s \<Rightarrow> length s < 8 | _ \<Rightarrow> False)
                          then (w, Inl (createError 400
                                          ''Password must be at least 8 characters long''))
                          else if length (trim (castString newPassword)) < 8
                          then (w, Inl (ValidationError ''User validation failed''))
                          else
                            let new = trim (castString newPassword);
                                u' = u\<lparr>password := (if new = password u then password u
                                                     else hash new)\<rparr>
                            in (w\<lparr>users := replaceUser u' (users w)\<rparr>,
                                Inr (sendResponse 200 True ''Password changed successfully''
                                       (Str (password u'))))
                      | _ \<Rightarrow>
                          (w, Inl (Error
                             ''data must be a string or Buffer and hash must be a string''))))))"

definition deleteMyAccount :: "world \<Rightarrow> 'b request \<Rightarrow> world \<times> (error + response)" where
  "deleteMyAccount w req =
     (case user req of
        None \<Rightarrow> (w, Inl (TypeError ''Cannot read properties of undefined (reading '_id')''))
      | Some me \<Rightarrow>
          (case User_findById (users w) (user_id me) of
             None \<Rightarrow> (w, Inl (createError 404 ''User not found''))
           | Some u \<Rightarrow>
               let w1 = (case profileImageId u of None \<Rightarrow> w
                         | Some i \<Rightarrow> if i \<noteq> [] then deleteImgCloudinary i w else w)
               in (w1\<lparr>users := deleteFirst (\<lambda>x. user_id x = user_id me) (users w1)\<rparr>,
                   Inr (sendResponse 200 True ''Account deleted successfully'' (UserDoc u)))))"

datatype users_route = GET_users_me | PUT_users_me | PUT_users_change_password | DELETE_users_me

definition usersRouter ::
  "(string \<Rightarrow> error + claim) \<Rightarrow> (string \<Rightarrow> string) \<Rightarrow> (string \<Rightarrow> string \<Rightarrow> bool) \<Rightarrow> world
     \<Rightarrow> users_route \<Rightarrow> user_body request \<Rightarrow> world \<times> response" where
  "usersRouter verifyToken hash compare w route req =
     (case isAuth verifyToken [] w req of
        (w', Inl e) \<Rightarrow> (w', errorHandler e)
      | (w', Inr req1) \<Rightarrow>
          (case route of
             GET_users_me \<Rightarrow> respond (getMyProfile w' req1)
           | PUT_users_me \<Rightarrow> respond (updateMyProfile w' req1)
           | PUT_users_change_password \<Rightarrow> respond (changeMyPassword hash compare w' req1)
           | DELETE_users_me \<Rightarrow> respond (deleteMyAccount w' req1)))"

section \<open>The admin controllers\<close>

text \<open>
  \<open>deleteUser\<close> passes the string of the route to \<open>User.findByIdAndDelete\<close>, which casts it
  as \<open>Album.findById\<close> does.
  The names src/api/controllers/admin.controllers.js binds with \<open>require\<close> (lines 1 to 4).
  A call of a function evaluates its name first: a name the module does not bind raises a
  \<open>ReferenceError\<close>.
\<close>

definition admin_controllers_scope :: "string list" where
  "admin_controllers_scope = [''Album'', ''User'', ''deleteImgCloudinary'', ''sendResponse'']"

definition call_createError :: "string list \<Rightarrow> nat \<Rightarrow> string \<Rightarrow> error" where
  "call_createError scope status msg =
     (if ''createError'' \<in> set scope then createError status msg
      else ReferenceError ''createError is not defined'')"

definition getAllAlbums :: "world \<Rightarrow> 'b request \<Rightarrow> world \<times> (error + response)" where
  "getAllAlbums w req =
     (w, Inr (sendResponse 200 True ''Albums fetched successfully''
                (PopulatedAlbums
                   (map (\<lambda>a. (a, map_option (\<lambda>u. (user_id u, name u, email u))
                                    (User_findById (users w) (addedBy a))))
                        (albums w)))))"

definition getAllUsers :: "world \<Rightarrow> 'b request \<Rightarrow> world \<times> (error + response)" where
  "getAllUsers w req =
     (w, Inr (sendResponse 200 True ''Users fetched successfully'' (UserDocs (users w))))"

definition deleteUser :: "world \<Rightarrow> 'b request \<Rightarrow> world \<times> (error + response)" where
  "deleteUser w req =
     (case castObjectId (params_id req) of
        None \<Rightarrow> (w, Inl (CastError ''Cast to ObjectId failed''))
      | Some oid \<Rightarrow>
          (case User_findById (users w) oid of
             None \<Rightarrow> (w, Inl (call_createError admin_controllers_scope 404 ''User not found''))
           | Some userDeleted \<Rightarrow>
               let w1 = w\<lparr>users := deleteFirst (\<lambda>x. user_id x = oid) (users w)\<rparr>;
                   w2 = (case profileImageId userDeleted of None \<Rightarrow> w1
                         | Some i \<Rightarrow> if i \<noteq> [] then deleteImgCloudinary i w1 else w1)
               in (w2, Inr (sendResponse 200 True ''User deleted successfully''
                              (UserDoc userDeleted)))))"

datatype admin_route =
  GET_admin_albums | GET_admin_users | DELETE_admin_albums_id | DELETE_admin_users_id

text \<open>The admin router: \<open>isAuth(["admin"])\<close> on every route, and no \<open>isOwner\<close>.\<close>

definition adminRouter ::
  "(string \<Rightarrow> error + claim) \<Rightarrow> world \<Rightarrow> admin_route \<Rightarrow> 'b request \<Rightarrow> world \<times> response" where
  "adminRouter verifyToken w route req =
     (case isAuth verifyToken [''admin''] w req of
        (w', Inl e) \<Rightarrow> (w', errorHandler e)
      | (w', Inr req1) \<Rightarrow>
          (case route of
             GET_admin_albums \<Rightarrow> respond (getAllAlbums w' req1)
           | GET_admin_users \<Rightarrow> respond (getAllUsers w' req1)
           | DELETE_admin_albums_id \<Rightarrow> respond (deleteAlbum w' req1)
           | DELETE_admin_users_id \<Rightarrow> respond (deleteUser w' req1)))"

section \<open>The application\<close>

text \<open>The root route and the handler of unmatched routes of index.js.\<close>

definition rootRoute :: response where
  "rootRoute = sendResponse 200 True ''API is running'' Null"

definition notFound :: response where
  "notFound = sendResponse 404 False ''Route not found'' Null"

section \<open>Predicates of the properties\<close>

text \<open>Every stored email is a fixed point of the schema's setters (\<open>lowercase\<close>, \<open>trim\<close>).\<close>

definition emailsNormalized :: "world \<Rightarrow> bool" where
  "emailsNormalized w = list_all (\<lambda>u. trim (toLowerCase (email u)) = email u) (users w)"

text \<open>A response carries a \<open>data\<close> field only with a truthy payload in it.\<close>

definition enveloped :: "response \<Rightarrow> bool" where
  "enveloped r = (case data (json r) of None \<Rightarrow> True | Some d \<Rightarrow> truthy d)"

section \<open>Example data\<close>

text \<open>
  Two users, one administrator, one album of the first user (and, in \<open>world2\<close>, one of the
  second user stored after it), a token verifier that knows
  one token for each of them, and stand-ins for the two bcrypt functions. \<open>hexId\<close> pads a
  short hexadecimal string with zeros to the 24 digits of an id.
\<close>

definition hexId :: "string \<Rightarrow> string" where
  "hexId s = replicate (24 - length s) (CHR ''0'') @ s"

definition toyHash :: "string \<Rightarrow> string" where
  "toyHash p = ''$2b$'' @ rev p"

definition toyCompare :: "string \<Rightarrow> string \<Rightarrow> bool" where
  "toyCompare p h = (h = toyHash p)"

definition alice :: user where
  "alice = \<lparr>user_id = ObjectId (hexId ''d1''), name = ''Alice'', email = ''alice@x.com'',
     password = ''$2b$drowssap-dlo'', role = ''user'', profileImageUrl = None,
     profileImageId = None\<rparr>"

definition bob :: user where
  "bob = \<lparr>user_id = ObjectId (hexId ''d2''), name = ''Bob'', email = ''bob@x.com'',
     password = ''$2b$87654321'', role = ''user'', profileImageUrl = None,
     profileImageId = None\<rparr>"

definition root :: user where
  "root = \<lparr>user_id = ObjectId (hexId ''d0''), name = ''Root'', email = ''root@x.com'',
     password = ''$2b$toor-toor'', role = ''admin'', profileImageUrl = None,
     profileImageId = None\<rparr>"

definition album1 :: album where
  "album1 = \<lparr>album_id = ObjectId (hexId ''a1''), title = ''OK Computer'', artists = [''Radiohead''],
     format = ''LP'', releaseDate = ''1997-05-21'', coverArtUrl = None, coverArtId = None,
     addedBy = ObjectId (hexId ''d1''), createdAt = 1\<rparr>"

definition world0 :: world where
  "world0 = \<lparr>users = [], albums = [], destroyed = [], verified = []\<rparr>"

definition world1 :: world where
  "world1 = \<lparr>users = [alice, bob, root], albums = [album1], destroyed = [], verified = []\<rparr>"



definition tokens :: "string \<Rightarrow> error + claim" where
  "tokens t =
     (if t = ''tok-alice'' then Inr \<lparr>claim_id = ObjectId (hexId ''d1''), claim_email = ''alice@x.com''\<rparr>
      else if t = ''tok-bob'' then Inr \<lparr>claim_id = ObjectId (hexId ''d2''), claim_email = ''bob@x.com''\<rparr>
      else if t = ''tok-root'' then Inr \<lparr>claim_id = ObjectId (hexId ''d0''), claim_email = ''root@x.com''\<rparr>
      else Inl (JsonWebTokenError ''invalid signature''))"

definition request :: "'b \<Rightarrow> 'b request" where
  "request b = \<lparr>authorization = None, params_id = [], body = b, req_file = None,
     user = None, album = None\<rparr>"

definition no_fields :: album_body where
  "no_fields = \<lparr>body_title = None, body_artists = None, body_format = None,
     body_releaseDate = None, body_coverArtUrl = None, body_coverArtId = None,
     body_addedBy = None\<rparr>"

definition thriller :: album_body where
  "thriller = no_fields\<lparr>body_title := Some ''Thriller'',
     body_artists := Some [''Michael Jackson''], body_format := Some ''LP'',
     body_releaseDate := Some ''1982-11-30''\<rparr>"

definition thrillerDoc :: "objectId \<Rightarrow> nat \<Rightarrow> album" where
  "thrillerDoc i n = \<lparr>album_id = i, title = ''Thriller'', artists = [''Michael Jackson''],
     format = ''LP'', releaseDate = ''1982-11-30'', coverArtUrl = None, coverArtId = None,
     addedBy = ObjectId (hexId ''d1''), createdAt = n\<rparr>"

definition no_user_fields :: user_body where
  "no_user_fields = \<lparr>body_name = None, body_email = None, body_password = None,
     body_role = None, body_currentPassword = JUndefined, body_newPassword = JUndefined,
     body_confirmPassword = JUndefined\<rparr>"

section \<open>Facts about the strings and the collections\<close>

lemma isSpace_toLowerChar: "isSpace (toLowerChar c) = isSpace c"
  by (auto simp: isSpace_def toLowerChar_def Let_def of_char_of)

lemma toLowerChar_idem: "toLowerChar (toLowerChar c) = toLowerChar c"
  by (auto simp: toLowerChar_def Let_def of_char_of)

lemma toLowerCase_idem: "toLowerCase (toLowerCase s) = toLowerCase s"
  by (simp add: toLowerCase_def toLowerChar_idem)

lemma toLowerCase_dropWhile:
  "toLowerCase (dropWhile isSpace s) = dropWhile isSpace (toLowerCase s)"
  by (induction s) (auto simp: toLowerCase_def isSpace_toLowerChar)

lemma toLowerCase_rev: "toLowerCase (rev s) = rev (toLowerCase s)"
  by (simp add: toLowerCase_def rev_map)

lemma toLowerCase_trim: "toLowerCase (trim s) = trim (toLowerCase s)"
  by (simp add: trim_def toLowerCase_dropWhile toLowerCase_rev)

lemma dropWhile_head: "dropWhile P s = [] \<or> \<not> P (hd (dropWhile P s))"
  using hd_dropWhile by blast

lemma dropWhile_rev_dropWhile_rev:
  assumes "t = [] \<or> \<not> P (hd t)"
  shows "dropWhile P (rev (dropWhile P (rev t))) = rev (dropWhile P (rev t))"
proof (cases t)
  case Nil
  then show ?thesis by simp
next
  case (Cons x xs)
  with assms have x: "\<not> P x" by simp
  then have "rev (dropWhile P (rev t)) = x # rev (dropWhile P (rev xs))
             \<or> rev (dropWhile P (rev t)) = [x]"
    using Cons by (simp add: dropWhile_append)
  then show ?thesis using x by auto
qed

lemma trim_idem: "trim (trim s) = trim s"
proof -
  let ?t = "dropWhile isSpace s"
  have "?t = [] \<or> \<not> isSpace (hd ?t)" by (rule dropWhile_head)
  then have "dropWhile isSpace (trim s) = trim s"
    unfolding trim_def by (rule dropWhile_rev_dropWhile_rev)
  then show ?thesis by (simp add: trim_def)
qed

lemma length_trim_le: "length (trim s) \<le> length s"
proof -
  have "length (trim s) \<le> length (dropWhile isSpace s)"
    unfolding trim_def using length_dropWhile_le [of isSpace "rev (dropWhile isSpace s)"] by simp
  also have "\<dots> \<le> length s" by (rule length_dropWhile_le)
  finally show ?thesis .
qed

lemma normalize_idem: "trim (toLowerCase (trim (toLowerCase e))) = trim (toLowerCase e)"
  by (simp add: toLowerCase_trim toLowerCase_idem trim_idem)

lemma replace_prefix: "replace pat rep (pat @ t) = rep @ t"
proof (cases "pat @ t")
  case Nil
  then show ?thesis by simp
next
  case (Cons c s)
  then have "replace pat rep (pat @ t) =
      (if take (length pat) (pat @ t) = pat then rep @ drop (length pat) (pat @ t)
       else c # replace pat rep s)"
    by simp
  then show ?thesis by simp
qed

lemma replace_absent: "\<not> occurs pat s \<Longrightarrow> replace pat rep s = s"
  by (induction s) (auto split: if_splits)

lemma find_snoc:
  "find P (xs @ [x]) =
     (case find P xs of None \<Rightarrow> (if P x then Some x else None) | Some y \<Rightarrow> Some y)"
  by (induction xs) auto

lemma Album_findById_cast:
  "castObjectId i = Some oid \<Longrightarrow> Album_findById as i = Inr (find (\<lambda>a. album_id a = oid) as)"
  by (simp add: Album_findById_def)

lemma Album_findById_Inr:
  "Album_findById as i = Inr r \<Longrightarrow>
   \<exists>oid. castObjectId i = Some oid \<and> r = find (\<lambda>a. album_id a = oid) as"
  by (auto simp: Album_findById_def split: option.splits)



lemma User_findById_Some: "User_findById us i = Some u \<Longrightarrow> u \<in> set us \<and> user_id u = i"
  by (auto simp: User_findById_def find_Some_iff)

lemma User_findById_None: "(User_findById us i = None) = (i \<notin> user_id ` set us)"
  by (auto simp: User_findById_def find_None_iff)

lemma User_findById_replaceUser:
  "User_findById us i = Some u \<Longrightarrow> user_id u' = i \<Longrightarrow>
   User_findById (replaceUser u' us) i = Some u'"
  by (induction us) (auto simp: User_findById_def split: if_splits)

lemma User_findOne_member: "u \<in> set us \<Longrightarrow> \<exists>x. User_findOne us (email u) = Some x"
  by (cases "User_findOne us (email u)") (auto simp: User_findOne_def find_None_iff)

lemma find_updateFirst:
  "(\<And>a. album_id (f a) = album_id a) \<Longrightarrow>
   find (\<lambda>a. album_id a = i) (updateFirst i f as) = map_option f (find (\<lambda>a. album_id a = i) as)"
  by (induction as) auto

lemma album_id_applyUpdates: "album_id (applyUpdates b a) = album_id a"
  by (simp add: applyUpdates_def)

lemma updatesValid_cover:
  "updatesValid (b\<lparr>body_coverArtUrl := x, body_coverArtId := y\<rparr>) = updatesValid b"
  by (simp add: updatesValid_def)

lemma toString_eq: "(toString a = toString b) = (a = b)"
  by (cases a; cases b) simp

section \<open>C1: the same album created twice\<close>

lemma Album_create_again:
  "Album_create i1 n1 b owner f = Inr a1 \<Longrightarrow>
   \<exists>a2. Album_create i2 n2 b owner f = Inr a2 \<and> title a2 = title a1 \<and> artists a2 = artists a1
        \<and> addedBy a2 = owner \<and> addedBy a1 = owner
        \<and> (\<forall>t. body_title b = Some t \<longrightarrow> title a1 = trim t)"
  by (auto simp: Album_create_def Let_def split: option.splits if_splits)

text \<open>
  The query works on stored documents that are lower case already: with an album
  \<open>thriller\<close> / \<open>michael jackson\<close> of the caller in the collection, a second one sent as
  \<open>"  THRILLER "\<close> / \<open>"Michael Jackson "\<close> is refused with status 400 and nothing is stored.
\<close>

lemma postAlbum_lower_case_duplicate:
  "respond (postAlbum (ObjectId (hexId ''a2'')) 2
      (world0\<lparr>albums := [(thrillerDoc (ObjectId (hexId ''a1'')) 1)
                 \<lparr>title := ''thriller'', artists := [''michael jackson'']\<rparr>]\<rparr>)
      ((request (thriller\<lparr>body_title := Some ''  THRILLER '',
                          body_artists := Some [''Michael Jackson '']\<rparr>))\<lparr>user := Some alice\<rparr>))
   = (world0\<lparr>albums := [(thrillerDoc (ObjectId (hexId ''a1'')) 1)
                 \<lparr>title := ''thriller'', artists := [''michael jackson'']\<rparr>]\<rparr>,
      sendResponse 400 False ''This album already exists in your collection'' Null)"
  by code_simp

text \<open>
  \<open>$all\<close> with \<open>$size\<close> is not equality of multisets: with the caller's album \<open>thriller\<close>
  by \<open>a\<close> and \<open>b\<close> in the collection, a request for \<open>thriller\<close> by \<open>a\<close> and \<open>a\<close> is
  refused as a duplicate.
\<close>

lemma postAlbum_all_size_match:
  "mset [''a'', ''b''] \<noteq> mset [''a'', ''a'']
   \<and> snd (postAlbum (ObjectId (hexId ''a2'')) 2
      (world0\<lparr>albums := [(thrillerDoc (ObjectId (hexId ''a1'')) 1)
                 \<lparr>title := ''thriller'', artists := [''a'', ''b'']\<rparr>]\<rparr>)
      ((request (thriller\<lparr>body_title := Some ''thriller'',
                          body_artists := Some [''a'', ''a'']\<rparr>))\<lparr>user := Some alice\<rparr>))
     = Inl (HttpError 400 ''This album already exists in your collection'')"
proof
  have "count (mset [''a'', ''b'']) ''b'' \<noteq> count (mset [''a'', ''a'']) ''b''" by simp
  then show "mset [''a'', ''b''] \<noteq> mset [''a'', ''a'']" by metis
  show "snd (postAlbum (ObjectId (hexId ''a2'')) 2
      (world0\<lparr>albums := [(thrillerDoc (ObjectId (hexId ''a1'')) 1)
                 \<lparr>title := ''thriller'', artists := [''a'', ''b'']\<rparr>]\<rparr>)
      ((request (thriller\<lparr>body_title := Some ''thriller'',
                          body_artists := Some [''a'', ''a'']\<rparr>))\<lparr>user := Some alice\<rparr>))
     = Inl (HttpError 400 ''This album already exists in your collection'')"
    by code_simp
qed

text \<open>
  C1 (the code departs from the claim). The claim: creating an album whose normalized
  title and artists equal those of an album the owner already has fails with status 400 and
  stores nothing. The code compares the normalized title with the stored \<open>title\<close>, which is
  trimmed but keeps its capitals. So whenever the trimmed title of a request has a capital
  letter and the request was accepted once, the same request from the same user is accepted
  again: the second call answers 201 and the collection then holds two albums with equal
  title, artists and owner.
\<close>

theorem postAlbum_same_album_twice:
  assumes "user req = Some u" and "body_title (body req) = Some t"
    and "toLowerCase (trim t) \<noteq> trim t"
    and "postAlbum i1 n1 w req = (w1, Inr r1)"
  shows "\<exists>a1 a2. postAlbum i2 n2 w1 req
            = (w\<lparr>albums := albums w @ [a1, a2]\<rparr>,
               Inr (sendResponse 201 True ''Album created successfully'' (AlbumDoc a2)))
          \<and> title a1 = title a2 \<and> artists a1 = artists a2
          \<and> addedBy a1 = user_id u \<and> addedBy a2 = user_id u"
proof -
  let ?as = "case body_artists (body req) of None \<Rightarrow> [] | Some xs \<Rightarrow> xs"
  let ?q = "toLowerCase (trim t)"
  let ?qs = "map (\<lambda>a. toLowerCase (trim a)) ?as"
  from assms(1,2,4) have none: "Album_findOne (albums w) ?q ?qs (user_id u) = None"
    by (auto simp: postAlbum_def Let_def split: option.splits sum.splits)
  from assms(1,2,4) none obtain a1 where
    a1: "Album_create i1 n1 (body req) (user_id u) (req_file req) = Inr a1"
    and w1: "w1 = w\<lparr>albums := albums w @ [a1]\<rparr>"
    by (auto simp: postAlbum_def Let_def split: sum.splits)
  from Album_create_again [OF a1, of i2 n2] assms(2) obtain a2 where
    a2: "Album_create i2 n2 (body req) (user_id u) (req_file req) = Inr a2"
    and eq: "title a2 = title a1" "artists a2 = artists a1" "addedBy a2 = user_id u"
      "addedBy a1 = user_id u" "title a1 = trim t"
    by auto
  have "Album_findOne (albums w @ [a1]) ?q ?qs (user_id u) = None"
    using none eq(5) assms(3) by (simp add: Album_findOne_def find_snoc)
  then have "postAlbum i2 n2 w1 req
      = (w\<lparr>albums := albums w @ [a1, a2]\<rparr>,
         Inr (sendResponse 201 True ''Album created successfully'' (AlbumDoc a2)))"
    using assms(1,2) a2 w1 by (simp add: postAlbum_def Let_def)
  then show ?thesis using eq by (intro exI [of _ a1] exI [of _ a2]) simp
qed

theorem postAlbum_same_album_twice_witness:
  "postAlbum (ObjectId (hexId ''a1'')) 1 world0 ((request thriller)\<lparr>user := Some alice\<rparr>)
     = (world0\<lparr>albums := [thrillerDoc (ObjectId (hexId ''a1'')) 1]\<rparr>,
        Inr (sendResponse 201 True ''Album created successfully''
               (AlbumDoc (thrillerDoc (ObjectId (hexId ''a1'')) 1))))
   \<and> (\<exists>a1 a2. postAlbum (ObjectId (hexId ''a2'')) 2 (world0\<lparr>albums := [thrillerDoc (ObjectId (hexId ''a1'')) 1]\<rparr>)
                 ((request thriller)\<lparr>user := Some alice\<rparr>)
            = (world0\<lparr>albums := albums world0 @ [a1, a2]\<rparr>,
               Inr (sendResponse 201 True ''Album created successfully'' (AlbumDoc a2)))
          \<and> title a1 = title a2 \<and> artists a1 = artists a2
          \<and> addedBy a1 = user_id alice \<and> addedBy a2 = user_id alice)"
proof -
  let ?req = "(request thriller)\<lparr>user := Some alice\<rparr>"
  have h1: "user ?req = Some alice" by simp
  have h2: "body_title (body ?req) = Some ''Thriller''" by (simp add: request_def thriller_def)
  have h3: "toLowerCase (trim ''Thriller'') \<noteq> trim ''Thriller''" by code_simp
  have h4: "postAlbum (ObjectId (hexId ''a1'')) 1 world0 ?req
     = (world0\<lparr>albums := [thrillerDoc (ObjectId (hexId ''a1'')) 1]\<rparr>,
        Inr (sendResponse 201 True ''Album created successfully''
               (AlbumDoc (thrillerDoc (ObjectId (hexId ''a1'')) 1))))"
    by code_simp
  show ?thesis
    using h4 postAlbum_same_album_twice [OF h1 h2 h3 h4, of "ObjectId (hexId ''a2'')" 2] by simp
qed

section \<open>C2: the owner of an album\<close>

text \<open>Creation takes the owner from the authenticated user, whatever the body holds.\<close>

lemma postAlbum_owner:
  assumes "postAlbum newId now w req = (w', Inr r)" and "user req = Some u"
  shows "\<exists>a. albums w' = albums w @ [a] \<and> addedBy a = user_id u
           \<and> r = sendResponse 201 True ''Album created successfully'' (AlbumDoc a)"
  using assms
  by (auto simp: postAlbum_def Album_create_def Let_def
      split: option.splits sum.splits if_splits)

text \<open>
  C2 (the code departs from the claim). The claim: no update changes the owner of a stored
  album. \<open>updateAlbum\<close> passes the whole body to \<open>findByIdAndUpdate\<close>, so a body with an
  \<open>addedBy\<close> property that passes the validators makes that value the owner of the stored
  album, and the response (status 200) shows the album with the new owner.
\<close>

theorem updateAlbum_sets_owner:
  assumes "Album_findById (albums w) (params_id req) = Inr (Some prev)"
    and "updatesValid (body req)" and "body_addedBy (body req) = Some other"
  shows "\<exists>a. Album_findById (albums (fst (updateAlbum w req))) (params_id req) = Inr (Some a)
           \<and> addedBy a = other
           \<and> snd (updateAlbum w req)
                = Inr (sendResponse 200 True ''Album updated successfully'' (AlbumDoc a))"
proof -
  let ?u = "case req_file req of None \<Rightarrow> body req
            | Some f \<Rightarrow> (body req)\<lparr>body_coverArtUrl := Some (path f),
                                   body_coverArtId := Some (filename f)\<rparr>"
  from Album_findById_Inr [OF assms(1)] obtain oid where
    c: "castObjectId (params_id req) = Some oid"
    and p: "find (\<lambda>a. album_id a = oid) (albums w) = Some prev"
    by auto
  have v: "updatesValid ?u" and o: "body_addedBy ?u = Some other"
    using assms(2,3) by (auto simp: updatesValid_cover split: option.split)
  have f: "Album_findByIdAndUpdate (albums w) (params_id req) ?u
       = Inr (updateFirst oid (applyUpdates ?u) (albums w), Some (applyUpdates ?u prev))"
    using v c p by (simp add: Album_findByIdAndUpdate_def)
  have a: "albums (fst (updateAlbum w req)) = updateFirst oid (applyUpdates ?u) (albums w)"
    using assms(1) f
    by (simp add: updateAlbum_def Let_def deleteImgCloudinary_def split: option.split)
  have s: "snd (updateAlbum w req)
       = Inr (sendResponse 200 True ''Album updated successfully''
                (AlbumDoc (applyUpdates ?u prev)))"
    using assms(1) f by (simp add: updateAlbum_def Let_def split: option.split)
  have n: "addedBy (applyUpdates ?u prev) = other"
    using o by (simp add: applyUpdates_def)
  have l: "Album_findById (albums (fst (updateAlbum w req))) (params_id req)
       = Inr (Some (applyUpdates ?u prev))"
    using a p by (simp add: Album_findById_cast [OF c] find_updateFirst album_id_applyUpdates)
  show ?thesis
    using l n s by (intro exI [of _ "applyUpdates ?u prev"]) simp
qed

theorem updateAlbum_sets_owner_witness:
  "Album_findById (albums world1) (hexId ''a1'') = Inr (Some album1)
   \<and> addedBy album1 = ObjectId (hexId ''d1'')
   \<and> (\<exists>a. Album_findById
            (albums (fst (updateAlbum world1
               ((request (no_fields\<lparr>body_addedBy := Some (ObjectId (hexId ''d2''))\<rparr>))
                  \<lparr>params_id := hexId ''a1'', user := Some alice, album := Some album1\<rparr>))))
            (hexId ''a1'') = Inr (Some a)
          \<and> addedBy a = ObjectId (hexId ''d2''))"
proof -
  let ?req = "(request (no_fields\<lparr>body_addedBy := Some (ObjectId (hexId ''d2''))\<rparr>))
                 \<lparr>params_id := hexId ''a1'', user := Some alice, album := Some album1\<rparr>"
  have p: "params_id ?req = hexId ''a1''" by simp
  have f: "Album_findById (albums world1) (hexId ''a1'') = Inr (Some album1)" by code_simp
  have h1: "Album_findById (albums world1) (params_id ?req) = Inr (Some album1)"
    using f by (simp only: p)
  have h2: "updatesValid (body ?req)"
    by (simp add: request_def no_fields_def updatesValid_def)
  have h3: "body_addedBy (body ?req) = Some (ObjectId (hexId ''d2''))"
    by (simp add: request_def)
  have o: "addedBy album1 = ObjectId (hexId ''d1'')" by (simp add: album1_def)
  from updateAlbum_sets_owner [OF h1 h2 h3] obtain a where
    "Album_findById (albums (fst (updateAlbum world1 ?req))) (params_id ?req) = Inr (Some a)"
    and a: "addedBy a = ObjectId (hexId ''d2'')"
    by blast
  then have "Album_findById (albums (fst (updateAlbum world1 ?req))) (hexId ''a1'') = Inr (Some a)"
    by (simp only: p)
  with a have "\<exists>a. Album_findById (albums (fst (updateAlbum world1 ?req))) (hexId ''a1'')
                 = Inr (Some a) \<and> addedBy a = ObjectId (hexId ''d2'')"
    by blast
  then show ?thesis using f o by simp
qed

text \<open>
  The same through the router: Alice, the owner of album \<open>a1\<close>, sends
  \<open>PUT /albums/:id\<close> for it with the body \<open>{addedBy: d2}\<close>, Bob's id.
\<close>

lemma albumsRouter_put_changes_owner:
  "map addedBy (albums world1) = [ObjectId (hexId ''d1'')]
   \<and> map addedBy (albums (fst (albumsRouter tokens (ObjectId (hexId ''a9'')) 9 world1 PUT_albums_id
        ((request (no_fields\<lparr>body_addedBy := Some (ObjectId (hexId ''d2''))\<rparr>))
           \<lparr>authorization := Some ''Bearer tok-alice'', params_id := hexId ''a1''\<rparr>))))
       = [ObjectId (hexId ''d2'')]
   \<and> statusCode (snd (albumsRouter tokens (ObjectId (hexId ''a9'')) 9 world1 PUT_albums_id
        ((request (no_fields\<lparr>body_addedBy := Some (ObjectId (hexId ''d2''))\<rparr>))
           \<lparr>authorization := Some ''Bearer tok-alice'', params_id := hexId ''a1''\<rparr>))) = 200"
  by code_simp

section \<open>C3: the ownership gate\<close>

text \<open>Unique album ids are kept by the three writes on the collection.\<close>

lemma album_id_updateFirst:
  "(\<And>a. album_id (f a) = album_id a) \<Longrightarrow> map album_id (updateFirst i f as) = map album_id as"
  by (induction as) auto

lemma distinct_deleteFirst:
  "distinct (map album_id as) \<Longrightarrow> distinct (map album_id (deleteFirst P as))"
proof (induction as)
  case Nil
  then show ?case by simp
next
  case (Cons a as)
  have "set (deleteFirst P as) \<subseteq> set as"
    by (induction as) auto
  with Cons show ?case by auto
qed

lemma distinct_postAlbum:
  "distinct (map album_id (albums w)) \<Longrightarrow> newId \<notin> album_id ` set (albums w) \<Longrightarrow>
   distinct (map album_id (albums (fst (postAlbum newId now w req))))"
  by (auto simp: postAlbum_def Album_create_def Let_def cleanup_def deleteImgCloudinary_def
      split: option.splits sum.splits if_splits)




text \<open>
  Through the router: Bob asks for Alice's album \<open>a1\<close> and is refused with status 403.
\<close>

lemma albumsRouter_get_foreign_album:
  "albumsRouter tokens (ObjectId (hexId ''a9'')) 9 world1 GET_albums_id
     ((request no_fields)\<lparr>authorization := Some ''Bearer tok-bob'', params_id := hexId ''a1''\<rparr>)
   = (world1\<lparr>verified := [''tok-bob'']\<rparr>, sendResponse 403 False ''Not authorized'' Null)"
  by code_simp

text \<open>Alice asks for the album \<open>zz\<close> and receives status 500 with the cast error's message.\<close>

lemma albumsRouter_get_malformed_id:
  "albumsRouter tokens (ObjectId (hexId ''a9'')) 9 world1 GET_albums_id
     ((request no_fields)\<lparr>authorization := Some ''Bearer tok-alice'', params_id := ''zz''\<rparr>)
   = (world1\<lparr>verified := [''tok-alice'']\<rparr>,
      sendResponse 500 False ''Cast to ObjectId failed'' Null)"
  by code_simp

section \<open>C4: the role gate\<close>

text \<open>
  C4. For a request that authenticates as principal \<open>p\<close> (its header yields a token, the
  verifier accepts the token and the user it names exists), \<open>isAuth(R)\<close> passes the request
  on when \<open>R\<close> is empty or holds the role of \<open>p\<close>, and fails with status 403 otherwise. A
  principal whose role is not \<open>admin\<close> gets that 403 from every route of the admin router,
  whatever the route and the target id; the router has by then only recorded the token it
  verified, so no user, album or image has been read by a handler or changed.
\<close>

theorem isAuth_role_gate:
  assumes "authorization req = Some h" and "replace ''Bearer '' [] h = t" and "t \<noteq> []"
    and "verifyToken t = Inr d" and "User_findById (users w) (claim_id d) = Some p"
  shows "snd (isAuth verifyToken R w req)
           = (if R = [] \<or> role p \<in> set R then Inr (req\<lparr>user := Some p\<rparr>)
              else Inl (HttpError 403 (''Access denied for role: '' @ role p)))
       \<and> (role p \<noteq> ''admin'' \<longrightarrow>
            (\<forall>route. adminRouter verifyToken w route req
               = (w\<lparr>verified := verified w @ [t]\<rparr>,
                  sendResponse 403 False (''Access denied for role: '' @ role p) Null)))"
  using assms
  by (auto simp: isAuth_def createError_def adminRouter_def errorHandler_def Let_def)

theorem isAuth_role_gate_witness:
  "snd (isAuth tokens [] world1 ((request ())\<lparr>authorization := Some ''Bearer tok-alice''\<rparr>))
     = Inr ((request ())\<lparr>authorization := Some ''Bearer tok-alice'', user := Some alice\<rparr>)
   \<and> snd (isAuth tokens [''admin''] world1
            ((request ())\<lparr>authorization := Some ''Bearer tok-alice''\<rparr>))
     = Inl (HttpError 403 ''Access denied for role: user'')
   \<and> adminRouter tokens world1 DELETE_admin_users_id
        ((request ())\<lparr>authorization := Some ''Bearer tok-alice'', params_id := hexId ''d2''\<rparr>)
     = (world1\<lparr>verified := [''tok-alice'']\<rparr>,
        sendResponse 403 False ''Access denied for role: user'' Null)"
proof -
  let ?r = "(request ())\<lparr>authorization := Some ''Bearer tok-alice''\<rparr>"
  let ?q = "(request ())\<lparr>authorization := Some ''Bearer tok-alice'', params_id := hexId ''d2''\<rparr>"
  let ?d = "\<lparr>claim_id = ObjectId (hexId ''d1''), claim_email = ''alice@x.com''\<rparr>"
  have h1: "authorization ?r = Some ''Bearer tok-alice''"
    and h1': "authorization ?q = Some ''Bearer tok-alice''" by simp_all
  have h2: "replace ''Bearer '' [] ''Bearer tok-alice'' = ''tok-alice''" by simp
  have h3: "''tok-alice'' \<noteq> []" by simp
  have h4: "tokens ''tok-alice'' = Inr ?d" by (simp add: tokens_def)
  have h5: "User_findById (users world1) (claim_id ?d) = Some alice"
    by (simp add: User_findById_def world1_def alice_def)
  have r: "role alice = ''user''" "role alice \<noteq> ''admin''" "verified world1 = []"
    by (simp_all add: alice_def world1_def)
  have "snd (isAuth tokens [] world1 ?r) = Inr (?r\<lparr>user := Some alice\<rparr>)"
    using isAuth_role_gate [where verifyToken = tokens and R = "[]", OF h1 h2 h3 h4 h5] by simp
  moreover have "snd (isAuth tokens [''admin''] world1 ?r)
      = Inl (HttpError 403 ''Access denied for role: user'')"
    using isAuth_role_gate [where verifyToken = tokens and R = "[''admin'']", OF h1 h2 h3 h4 h5] r by simp
  moreover have "adminRouter tokens world1 DELETE_admin_users_id ?q
      = (world1\<lparr>verified := [''tok-alice'']\<rparr>,
         sendResponse 403 False ''Access denied for role: user'' Null)"
    using isAuth_role_gate [where verifyToken = tokens and R = "[]", OF h1' h2 h3 h4 h5] r by simp
  ultimately show ?thesis by simp
qed

section \<open>C5: the hashed credential in responses\<close>

text \<open>
  The profile handlers strip the password: what \<open>getMyProfile\<close> sends is a user object
  without it.
\<close>

lemma getMyProfile_omits_password:
  assumes "user req = Some me" and "User_findById (users w) (user_id me) = Some u"
  shows "getMyProfile w req
           = (w, Inr (sendResponse 200 True ''User fetched successfully''
                        (UserObject (omitPassword u))))"
  using assms by (simp add: getMyProfile_def)

text \<open>\<open>getAllUsers\<close> sends the stored documents as they are, password included.\<close>

lemma getAllUsers_sends_documents:
  "data (json (snd (respond (getAllUsers w req)))) = Some (UserDocs (users w))"
  by (simp add: getAllUsers_def respond_def sendResponse_def)

text \<open>
  C5 (the code departs from the claim). The claim: no response carries the stored password
  hash of a user in its \<open>data\<close>. A successful \<open>changeMyPassword\<close> (all three fields present,
  the two new passwords equal, the current password accepted, the new one of at least 8
  characters after trimming and different from the stored value) stores the hash of the
  new password for the caller and sends that same hash as the \<open>data\<close> of its response.
\<close>

theorem changeMyPassword_returns_hash:
  assumes "user req = Some me" and "User_findById (users w) (user_id me) = Some u"
    and "body_currentPassword (body req) = JStr cur" and "cur \<noteq> []"
    and "body_newPassword (body req) = JStr new" and "body_confirmPassword (body req) = JStr new"
    and "8 \<le> length (trim new)" and "compare cur (password u)"
    and "trim new \<noteq> password u" and "hash (trim new) \<noteq> []"
  shows "\<exists>w' r. changeMyPassword hash compare w req = (w', Inr r)
           \<and> map_option password (User_findById (users w') (user_id me)) = Some (hash (trim new))
           \<and> data (json r) = Some (Str (hash (trim new)))"
proof -
  have n: "8 \<le> length new" "new \<noteq> []"
    using assms(7) length_trim_le [of new] by auto
  have i: "user_id u = user_id me"
    using assms(2) User_findById_Some by blast
  let ?u = "u\<lparr>password := hash (trim new)\<rparr>"
  have "changeMyPassword hash compare w req
          = (w\<lparr>users := replaceUser ?u (users w)\<rparr>,
             Inr (sendResponse 200 True ''Password changed successfully''
                    (Str (hash (trim new)))))"
    using assms n by (simp add: changeMyPassword_def looseEq_def Let_def)
  moreover have "User_findById (replaceUser ?u (users w)) (user_id me) = Some ?u"
    using assms(2) i by (intro User_findById_replaceUser) simp_all
  ultimately show ?thesis
    using assms(10) by (simp add: sendResponse_def)
qed

theorem changeMyPassword_returns_hash_witness:
  "\<exists>w' r. changeMyPassword toyHash toyCompare world1
       ((request (no_user_fields\<lparr>body_currentPassword := JStr ''old-password'',
           body_newPassword := JStr ''new-password'',
           body_confirmPassword := JStr ''new-password''\<rparr>))\<lparr>user := Some alice\<rparr>) = (w', Inr r)
     \<and> map_option password (User_findById (users w') (user_id alice)) = Some ''$2b$drowssap-wen''
     \<and> data (json r) = Some (Str ''$2b$drowssap-wen'')"
proof -
  let ?req = "(request (no_user_fields\<lparr>body_currentPassword := JStr ''old-password'',
           body_newPassword := JStr ''new-password'',
           body_confirmPassword := JStr ''new-password''\<rparr>))\<lparr>user := Some alice\<rparr>"
  have h1: "user ?req = Some alice" by simp
  have h2: "User_findById (users world1) (user_id alice) = Some alice"
    by (simp add: User_findById_def world1_def)
  have h3: "body_currentPassword (body ?req) = JStr ''old-password''"
    and h5: "body_newPassword (body ?req) = JStr ''new-password''"
    and h6: "body_confirmPassword (body ?req) = JStr ''new-password''"
    by (simp_all add: request_def)
  have h4: "''old-password'' \<noteq> []" by simp
  have t: "trim ''new-password'' = ''new-password''" by code_simp
  have h7: "8 \<le> length (trim ''new-password'')" by (simp add: t)
  have h8: "toyCompare ''old-password'' (password alice)"
    by (simp add: toyCompare_def toyHash_def alice_def)
  have h9: "trim ''new-password'' \<noteq> password alice" by (simp add: t alice_def)
  have h10: "toyHash (trim ''new-password'') \<noteq> []" by (simp add: toyHash_def)
  have v: "toyHash (trim ''new-password'') = ''$2b$drowssap-wen''"
    by (simp add: t toyHash_def)
  show ?thesis
    using changeMyPassword_returns_hash [where hash = toyHash and compare = toyCompare,
        OF h1 h2 h3 h4 h5 h6 h7 h8 h9 h10]
    by (simp only: v)
qed

text \<open>
  The same through the router: Alice sends \<open>PUT /users/change-password\<close> with her token and
  receives the hash that was stored for her.
\<close>

lemma usersRouter_change_password_response:
  "usersRouter tokens toyHash toyCompare world1 PUT_users_change_password
     ((request (no_user_fields\<lparr>body_currentPassword := JStr ''old-password'',
         body_newPassword := JStr ''new-password'',
         body_confirmPassword := JStr ''new-password''\<rparr>))
        \<lparr>authorization := Some ''Bearer tok-alice''\<rparr>)
   = (world1\<lparr>users := [alice\<lparr>password := ''$2b$drowssap-wen''\<rparr>, bob, root],
             verified := [''tok-alice'']\<rparr>,
      sendResponse 200 True ''Password changed successfully'' (Str ''$2b$drowssap-wen''))"
  by code_simp

section \<open>C6: a password change whose confirmation differs\<close>

text \<open>
  Whatever the kinds of the two values, a request whose new password and confirmation are
  not loosely equal is refused before any lookup.
\<close>

lemma changeMyPassword_not_looseEq:
  assumes "\<not> looseEq (body_newPassword (body req)) (body_confirmPassword (body req))"
  shows "\<exists>m. changeMyPassword hash compare w req = (w, Inl (HttpError 400 m))"
  using assms by (simp add: changeMyPassword_def Let_def createError_def)

text \<open>
  C6, as claimed, fails: the number \<open>12345678\<close> as \<open>newPassword\<close> differs from the string
  \<open>12345678\<close> as \<open>confirmPassword\<close>, but the loose \<open>!=\<close> of the handler finds them equal, the
  length check passes on a number, and the handler answers 200 and replaces the stored
  credential of the caller.
\<close>

theorem changeMyPassword_loose_counterexample:
  "JNum 12345678 \<noteq> JStr ''12345678''
   \<and> respond (changeMyPassword toyHash toyCompare world1
       ((request (no_user_fields\<lparr>body_currentPassword := JStr ''old-password'',
           body_newPassword := JNum 12345678,
           body_confirmPassword := JStr ''12345678''\<rparr>))\<lparr>user := Some alice\<rparr>))
     = (world1\<lparr>users := [alice\<lparr>password := ''$2b$87654321''\<rparr>, bob, root]\<rparr>,
        sendResponse 200 True ''Password changed successfully'' (Str ''$2b$87654321''))
   \<and> password alice \<noteq> ''$2b$87654321''"
  by code_simp

text \<open>
  C6, amended. When \<open>newPassword\<close> and \<open>confirmPassword\<close> of the body are two strings that
  differ, or when one of the three fields is absent or falsy, \<open>changeMyPassword\<close> fails with
  status 400, with the message of the first check that fails, and leaves the world as it
  was: no user record is written.
\<close>

theorem changeMyPassword_mismatch:
  assumes "falsyValue (body_currentPassword (body req)) \<or> falsyValue (body_newPassword (body req))
      \<or> falsyValue (body_confirmPassword (body req))
      \<or> (\<exists>a b. body_newPassword (body req) = JStr a \<and> body_confirmPassword (body req) = JStr b
                \<and> a \<noteq> b)"
  shows "changeMyPassword hash compare w req
           = (w, Inl (HttpError 400
                (if falsyValue (body_currentPassword (body req))
                    \<or> falsyValue (body_newPassword (body req))
                    \<or> falsyValue (body_confirmPassword (body req))
                 then ''All fields are required'' else ''New passwords do not match'')))
       \<and> fst (respond (changeMyPassword hash compare w req)) = w
       \<and> statusCode (snd (respond (changeMyPassword hash compare w req))) = 400
       \<and> success (json (snd (respond (changeMyPassword hash compare w req)))) = False"
proof -
  have "changeMyPassword hash compare w req
           = (w, Inl (HttpError 400
                (if falsyValue (body_currentPassword (body req))
                    \<or> falsyValue (body_newPassword (body req))
                    \<or> falsyValue (body_confirmPassword (body req))
                 then ''All fields are required'' else ''New passwords do not match'')))"
    using assms
    by (auto simp: changeMyPassword_def Let_def createError_def looseEq_def)
  then show ?thesis
    by (simp add: respond_def errorHandler_def sendResponse_def)
qed

theorem changeMyPassword_mismatch_witness:
  "changeMyPassword toyHash toyCompare world1
       ((request (no_user_fields\<lparr>body_currentPassword := JStr ''old-password'',
           body_newPassword := JStr ''new-password'',
           body_confirmPassword := JStr ''new-passw0rd''\<rparr>))\<lparr>user := Some alice\<rparr>)
     = (world1, Inl (HttpError 400 ''New passwords do not match''))
   \<and> changeMyPassword toyHash toyCompare world1
       ((request (no_user_fields\<lparr>body_currentPassword := JStr ''old-password'',
           body_newPassword := JStr ''new-password''\<rparr>))\<lparr>user := Some alice\<rparr>)
     = (world1, Inl (HttpError 400 ''All fields are required''))"
proof -
  let ?req = "(request (no_user_fields\<lparr>body_currentPassword := JStr ''old-password'',
           body_newPassword := JStr ''new-password'',
           body_confirmPassword := JStr ''new-passw0rd''\<rparr>))\<lparr>user := Some alice\<rparr>"
  let ?abs = "(request (no_user_fields\<lparr>body_currentPassword := JStr ''old-password'',
           body_newPassword := JStr ''new-password''\<rparr>))\<lparr>user := Some alice\<rparr>"
  have f: "\<not> falsyValue (body_currentPassword (body ?req))"
    "\<not> falsyValue (body_newPassword (body ?req))"
    "\<not> falsyValue (body_confirmPassword (body ?req))"
    by (simp_all add: request_def)
  have "\<exists>a b. body_newPassword (body ?req) = JStr a \<and> body_confirmPassword (body ?req) = JStr b
                \<and> a \<noteq> b"
    by (simp add: request_def)
  then have h: "falsyValue (body_currentPassword (body ?req))
      \<or> falsyValue (body_newPassword (body ?req)) \<or> falsyValue (body_confirmPassword (body ?req))
      \<or> (\<exists>a b. body_newPassword (body ?req) = JStr a \<and> body_confirmPassword (body ?req) = JStr b
                \<and> a \<noteq> b)"
    by blast
  have g: "falsyValue (body_confirmPassword (body ?abs))"
    by (simp add: request_def no_user_fields_def)
  then have k: "falsyValue (body_currentPassword (body ?abs))
      \<or> falsyValue (body_newPassword (body ?abs)) \<or> falsyValue (body_confirmPassword (body ?abs))
      \<or> (\<exists>a b. body_newPassword (body ?abs) = JStr a \<and> body_confirmPassword (body ?abs) = JStr b
                \<and> a \<noteq> b)"
    by blast
  have "changeMyPassword toyHash toyCompare world1 ?req
      = (world1, Inl (HttpError 400 ''New passwords do not match''))"
    using changeMyPassword_mismatch [OF h, of toyHash toyCompare world1] f by simp
  moreover have "changeMyPassword toyHash toyCompare world1 ?abs
      = (world1, Inl (HttpError 400 ''All fields are required''))"
    using changeMyPassword_mismatch [OF k, of toyHash toyCompare world1] g by simp
  ultimately show ?thesis by simp
qed

section \<open>C7: deleting a user that does not exist\<close>

text \<open>
  C7 (the code departs from the claim). The claim: \<open>DELETE /admin/users/:id\<close> for an id no
  user has fails with status 404. The handler does write \<open>throw createError(404, ...)\<close>, but
  its module never binds \<open>createError\<close>, so evaluating the call raises a \<open>ReferenceError\<close>,
  which has no status: for a well-formed id that no user has, the error handler answers 500
  with the message \<open>createError is not defined\<close>. A route string that is no id at all fails
  in the store's cast, with status 500 as well. The world is left as it was in both cases.
\<close>

theorem deleteUser_missing_user:
  "(\<forall>i. castObjectId (params_id req) = Some i \<longrightarrow> i \<notin> user_id ` set (users w) \<longrightarrow>
      respond (deleteUser w req)
        = (w, sendResponse 500 False ''createError is not defined'' Null))
   \<and> (castObjectId (params_id req) = None \<longrightarrow>
        respond (deleteUser w req) = (w, sendResponse 500 False ''Cast to ObjectId failed'' Null))"
proof (intro conjI allI impI)
  fix i assume "castObjectId (params_id req) = Some i" and "i \<notin> user_id ` set (users w)"
  moreover from this have "User_findById (users w) i = None"
    by (simp add: User_findById_None)
  ultimately show "respond (deleteUser w req)
        = (w, sendResponse 500 False ''createError is not defined'' Null)"
    by (simp add: deleteUser_def call_createError_def admin_controllers_scope_def respond_def
        errorHandler_def)
next
  assume "castObjectId (params_id req) = None"
  then show "respond (deleteUser w req)
        = (w, sendResponse 500 False ''Cast to ObjectId failed'' Null)"
    by (simp add: deleteUser_def respond_def errorHandler_def)
qed

theorem deleteUser_missing_user_witness:
  "respond (deleteUser world1 ((request ())\<lparr>params_id := hexId ''ff'', user := Some root\<rparr>))
     = (world1, sendResponse 500 False ''createError is not defined'' Null)
   \<and> statusCode (snd (respond (deleteUser world1
        ((request ())\<lparr>params_id := ''zz'', user := Some root\<rparr>)))) = 500"
proof -
  let ?req = "(request ())\<lparr>params_id := hexId ''ff'', user := Some root\<rparr>"
  let ?z = "(request ())\<lparr>params_id := ''zz'', user := Some root\<rparr>"
  have c: "castObjectId (params_id ?req) = Some (ObjectId (hexId ''ff''))"
    and z: "castObjectId (params_id ?z) = None"
    and h: "ObjectId (hexId ''ff'') \<notin> user_id ` set (users world1)"
    by code_simp+
  have "respond (deleteUser world1 ?req)
     = (world1, sendResponse 500 False ''createError is not defined'' Null)"
    using deleteUser_missing_user [of ?req world1] c h by blast
  moreover have "statusCode (snd (respond (deleteUser world1 ?z))) = 500"
    using deleteUser_missing_user [of ?z world1] z by (simp add: sendResponse_def)
  ultimately show ?thesis by simp
qed

text \<open>
  The same through the router: the administrator sends \<open>DELETE /admin/users/:id\<close> with a
  well-formed id that no user has. With \<open>createError\<close> in scope the same call would build the
  404 error.
\<close>

lemma adminRouter_delete_missing_user:
  "adminRouter tokens world1 DELETE_admin_users_id
     ((request ())\<lparr>authorization := Some ''Bearer tok-root'', params_id := hexId ''ff''\<rparr>)
   = (world1\<lparr>verified := [''tok-root'']\<rparr>,
      sendResponse 500 False ''createError is not defined'' Null)"
  by code_simp

lemma call_createError_in_scope:
  "errorHandler (call_createError (''createError'' # admin_controllers_scope) 404 ''User not found'')
   = sendResponse 404 False ''User not found'' Null"
  by (simp add: call_createError_def createError_def errorHandler_def)

section \<open>C8: the token handed to the verifier\<close>

text \<open>
  C8, as claimed, fails: the header \<open>abc\<close> has no \<open>Bearer\<close> prefix, and \<open>isAuth\<close> hands
  \<open>abc\<close> to the verifier.
\<close>

theorem isAuth_no_prefix_counterexample:
  "\<not> occurs ''Bearer '' ''abc''
   \<and> verified (fst (isAuth (\<lambda>t. Inl (JsonWebTokenError ''jwt malformed'')) [] world0
                  ((request ())\<lparr>authorization := Some ''abc''\<rparr>)))
       = [''abc'']"
  by (simp add: isAuth_def world0_def request_def)

text \<open>
  C8, amended. For a request whose authorization header \<open>h\<close> is present, what \<open>isAuth\<close>
  hands to the verifier is \<open>h\<close> with its first occurrence of \<open>Bearer\<close> and a space removed,
  when that is not empty; when it is empty nothing is verified and the request fails with
  status 401. For a header made of the prefix and \<open>t\<close> that token is \<open>t\<close>; a header in which
  the prefix does not occur is handed on whole.
\<close>

theorem isAuth_token_passed:
  assumes "authorization req = Some h"
  shows "verified (fst (isAuth verifyToken R w req))
           = verified w @ (if replace ''Bearer '' [] h = [] then [] else [replace ''Bearer '' [] h])
       \<and> (replace ''Bearer '' [] h = [] \<longrightarrow>
            snd (isAuth verifyToken R w req) = Inl (HttpError 401 ''No token provided''))
       \<and> (\<forall>t. h = ''Bearer '' @ t \<longrightarrow> replace ''Bearer '' [] h = t)
       \<and> (\<not> occurs ''Bearer '' h \<longrightarrow> replace ''Bearer '' [] h = h)"
proof (intro conjI allI impI)
  show "verified (fst (isAuth verifyToken R w req))
           = verified w @ (if replace ''Bearer '' [] h = [] then [] else [replace ''Bearer '' [] h])"
    using assms by (simp add: isAuth_def Let_def split: sum.split option.split)
next
  assume "replace ''Bearer '' [] h = []"
  then show "snd (isAuth verifyToken R w req) = Inl (HttpError 401 ''No token provided'')"
    using assms by (simp add: isAuth_def createError_def)
next
  fix t assume "h = ''Bearer '' @ t"
  then show "replace ''Bearer '' [] h = t"
    using replace_prefix [of "''Bearer ''" "[]" t] by simp
next
  assume "\<not> occurs ''Bearer '' h"
  then show "replace ''Bearer '' [] h = h" by (rule replace_absent)
qed

theorem isAuth_token_passed_witness:
  "verified (fst (isAuth tokens [] world1
      ((request ())\<lparr>authorization := Some ''Bearer tok-alice''\<rparr>))) = [''tok-alice'']
   \<and> verified (fst (isAuth tokens [] world1
      ((request ())\<lparr>authorization := Some ''tok-alice''\<rparr>))) = [''tok-alice'']
   \<and> verified (fst (isAuth tokens [] world1
      ((request ())\<lparr>authorization := Some ''Bearer ''\<rparr>))) = []"
proof -
  let ?a = "(request ())\<lparr>authorization := Some ''Bearer tok-alice''\<rparr>"
  let ?b = "(request ())\<lparr>authorization := Some ''tok-alice''\<rparr>"
  let ?c = "(request ())\<lparr>authorization := Some ''Bearer ''\<rparr>"
  have ha: "authorization ?a = Some ''Bearer tok-alice''"
    and hb: "authorization ?b = Some ''tok-alice''"
    and hc: "authorization ?c = Some ''Bearer ''"
    by simp_all
  have v: "verified world1 = []" by (simp add: world1_def)
  have "verified (fst (isAuth tokens [] world1 ?a)) = [''tok-alice'']"
    using isAuth_token_passed [OF ha, of tokens "[]" world1] v by simp
  moreover have "verified (fst (isAuth tokens [] world1 ?b)) = [''tok-alice'']"
    using isAuth_token_passed [OF hb, of tokens "[]" world1] v by simp
  moreover have "verified (fst (isAuth tokens [] world1 ?c)) = []"
    using isAuth_token_passed [OF hc, of tokens "[]" world1] v by simp
  ultimately show ?thesis by simp
qed

section \<open>C9: the response envelope\<close>

lemma enveloped_sendResponse: "enveloped (sendResponse s ok m d)"
  by (simp add: enveloped_def sendResponse_def)

lemma enveloped_errorHandler: "enveloped (errorHandler e)"
  by (simp add: errorHandler_def enveloped_sendResponse)

lemma enveloped_respond:
  "(\<And>r. snd x = Inr r \<Longrightarrow> enveloped r) \<Longrightarrow> enveloped (snd (respond x))"
  by (cases "snd x") (simp_all add: respond_def enveloped_errorHandler)

lemma enveloped_getMyAlbums: "enveloped (snd (respond (getMyAlbums w req)))"
  by (rule enveloped_respond)
     (auto simp: getMyAlbums_def Let_def enveloped_sendResponse split: option.splits if_splits)

lemma enveloped_getAlbumById: "enveloped (snd (respond (getAlbumById w req)))"
  by (rule enveloped_respond) (auto simp: getAlbumById_def enveloped_sendResponse)

lemma enveloped_postAlbum: "enveloped (snd (respond (postAlbum i n w req)))"
  by (rule enveloped_respond)
     (auto simp: postAlbum_def Let_def enveloped_sendResponse split: option.splits sum.splits)

lemma enveloped_updateAlbum: "enveloped (snd (respond (updateAlbum w req)))"
  by (rule enveloped_respond)
     (auto simp: updateAlbum_def Let_def enveloped_sendResponse
        split: option.splits sum.splits prod.splits)

lemma enveloped_deleteAlbum: "enveloped (snd (respond (deleteAlbum w req)))"
  by (rule enveloped_respond)
     (auto simp: deleteAlbum_def Let_def enveloped_sendResponse split: option.splits)

lemma enveloped_albumsRouter: "enveloped (snd (albumsRouter vt i n w route req))"
  by (cases route)
     (simp_all add: albumsRouter_def enveloped_errorHandler enveloped_getMyAlbums
        enveloped_getAlbumById enveloped_postAlbum enveloped_updateAlbum enveloped_deleteAlbum
        split: prod.split sum.split)

lemma enveloped_registerUser: "enveloped (snd (respond (registerUser h i w req)))"
  by (rule enveloped_respond)
     (auto simp: registerUser_def Let_def enveloped_sendResponse split: option.splits sum.splits)

lemma enveloped_loginUser: "enveloped (snd (respond (loginUser c g w req)))"
  by (rule enveloped_respond)
     (auto simp: loginUser_def enveloped_sendResponse split: option.splits if_splits)

lemma enveloped_authRouter: "enveloped (snd (authRouter h c g i w route req))"
  by (cases route) (simp_all add: authRouter_def enveloped_registerUser enveloped_loginUser)

lemma enveloped_getMyProfile: "enveloped (snd (respond (getMyProfile w req)))"
  by (rule enveloped_respond)
     (auto simp: getMyProfile_def enveloped_sendResponse split: option.splits)

lemma enveloped_updateMyProfile: "enveloped (snd (respond (updateMyProfile w req)))"
  by (rule enveloped_respond)
     (auto simp: updateMyProfile_def Let_def enveloped_sendResponse
        split: option.splits if_splits)

lemma enveloped_changeMyPassword: "enveloped (snd (respond (changeMyPassword h c w req)))"
  by (rule enveloped_respond)
     (auto simp: changeMyPassword_def Let_def enveloped_sendResponse
        split: option.splits if_splits jsvalue.splits)

lemma enveloped_deleteMyAccount: "enveloped (snd (respond (deleteMyAccount w req)))"
  by (rule enveloped_respond)
     (auto simp: deleteMyAccount_def Let_def enveloped_sendResponse split: option.splits)

lemma enveloped_usersRouter: "enveloped (snd (usersRouter vt h c w route req))"
  by (cases route)
     (simp_all add: usersRouter_def enveloped_errorHandler enveloped_getMyProfile
        enveloped_updateMyProfile enveloped_changeMyPassword enveloped_deleteMyAccount
        split: prod.split sum.split)

lemma enveloped_admin:
  "enveloped (snd (respond (getAllAlbums w req)))"
  "enveloped (snd (respond (getAllUsers w req)))"
  "enveloped (snd (respond (deleteUser w req)))"
  by (rule enveloped_respond,
      auto simp: getAllAlbums_def getAllUsers_def deleteUser_def Let_def enveloped_sendResponse
        split: option.splits)+

lemma enveloped_adminRouter: "enveloped (snd (adminRouter vt w route req))"
  by (cases route)
     (simp_all add: adminRouter_def enveloped_errorHandler enveloped_admin enveloped_deleteAlbum
        split: prod.split sum.split)

text \<open>
  C9, as claimed, fails: Bob has no album, and the response to his \<open>GET /albums\<close> carries
  the \<open>data\<close> field, holding the empty list.
\<close>

theorem getMyAlbums_empty_counterexample:
  "filter (\<lambda>a. addedBy a = user_id bob) (albums world1) = []
   \<and> data (json (snd (albumsRouter tokens (ObjectId (hexId ''a9'')) 9 world1 GET_albums
        ((request no_fields)\<lparr>authorization := Some ''Bearer tok-bob''\<rparr>))))
     = Some (AlbumDocs [])"
  by code_simp

text \<open>
  C9, amended. The body \<open>sendResponse\<close> builds is \<open>success\<close>, \<open>message\<close> and an optional
  \<open>data\<close>, and \<open>data\<close> is left out exactly when the payload is falsy: \<open>null\<close> (or absent) or
  the empty string. Every response of the four routers, of the root route and of the
  unmatched-route handler is such a body, with \<open>data\<close> present only for a truthy payload. A
  list is truthy even when empty: \<open>getMyAlbums\<close> for a user without albums answers 200 with
  \<open>data\<close> the empty list.
\<close>

theorem sendResponse_envelope:
  "json (sendResponse s ok m d)
     = \<lparr>success = ok, message = m, data = (if d = Null \<or> d = Str [] then None else Some d)\<rparr>
   \<and> enveloped (snd (albumsRouter vt i n w aroute areq))
   \<and> enveloped (snd (usersRouter vt h c w uroute ureq))
   \<and> enveloped (snd (adminRouter vt w mroute mreq))
   \<and> enveloped (snd (authRouter h c g i w troute ureq))
   \<and> enveloped rootRoute \<and> enveloped notFound
   \<and> (user req = Some u \<longrightarrow> filter (\<lambda>a. addedBy a = user_id u) (albums w) = [] \<longrightarrow>
        respond (getMyAlbums w req)
          = (w, \<lparr>statusCode = 200,
                 json = \<lparr>success = True, message = ''You haven't added any albums yet'',
                         data = Some (AlbumDocs [])\<rparr>\<rparr>))"
proof (intro conjI impI)
  show "json (sendResponse s ok m d)
     = \<lparr>success = ok, message = m, data = (if d = Null \<or> d = Str [] then None else Some d)\<rparr>"
    by (cases d) (simp_all add: sendResponse_def)
next
  assume "user req = Some u" and "filter (\<lambda>a. addedBy a = user_id u) (albums w) = []"
  then show "respond (getMyAlbums w req)
          = (w, \<lparr>statusCode = 200,
                 json = \<lparr>success = True, message = ''You haven't added any albums yet'',
                         data = Some (AlbumDocs [])\<rparr>\<rparr>)"
    by (simp add: sendResponse_def getMyAlbums_def respond_def)
qed (simp_all add: enveloped_albumsRouter enveloped_usersRouter enveloped_adminRouter
       enveloped_authRouter rootRoute_def notFound_def enveloped_sendResponse)

theorem sendResponse_envelope_witness:
  "respond (getMyAlbums world1 ((request no_fields)\<lparr>user := Some bob\<rparr>))
     = (world1, \<lparr>statusCode = 200,
                 json = \<lparr>success = True, message = ''You haven't added any albums yet'',
                         data = Some (AlbumDocs [])\<rparr>\<rparr>)
   \<and> data (json (sendResponse 200 True ''API is running'' Null)) = None"
proof -
  let ?req = "(request no_fields)\<lparr>user := Some bob\<rparr>"
  have h1: "user ?req = Some bob" by simp
  have h2: "filter (\<lambda>a. addedBy a = user_id bob) (albums world1) = []"
    by code_simp
  have "respond (getMyAlbums world1 ?req)
     = (world1, \<lparr>statusCode = 200,
                 json = \<lparr>success = True, message = ''You haven't added any albums yet'',
                         data = Some (AlbumDocs [])\<rparr>\<rparr>)"
    using sendResponse_envelope [where req = ?req and u = bob and w = world1] h1 h2 by blast
  moreover have "data (json (sendResponse 200 True ''API is running'' Null)) = None"
    by (simp add: sendResponse_def)
  ultimately show ?thesis by simp
qed

section \<open>C10: registering an email that is taken\<close>

lemma users_deleteImgCloudinary: "users (deleteImgCloudinary i w) = users w"
  by (simp add: deleteImgCloudinary_def)

lemma users_cleanup: "users (cleanup f w) = users w"
  by (simp add: cleanup_def users_deleteImgCloudinary split: option.split)

lemma users_isAuth: "users (fst (isAuth vt R w req)) = users w"
  by (simp add: isAuth_def Let_def split: option.split sum.split)

lemma list_all_replaceUser: "list_all P us \<Longrightarrow> P u \<Longrightarrow> list_all P (replaceUser u us)"
  by (induction us) auto

lemma list_all_deleteFirst: "list_all P xs \<Longrightarrow> list_all P (deleteFirst Q xs)"
  by (induction xs) auto

lemma fst_respond: "fst (respond x) = fst x"
  by (simp add: respond_def)

lemma emailsNormalized_users: "users w' = users w \<Longrightarrow> emailsNormalized w' = emailsNormalized w"
  by (simp add: emailsNormalized_def)

text \<open>
  The stored emails are normalized in the empty world, and every router keeps them so: an
  email is only ever stored by \<open>registerUser\<close> and \<open>updateMyProfile\<close>, after the setters.
\<close>

lemma emailsNormalized_world0: "emailsNormalized world0"
  by (simp add: emailsNormalized_def world0_def)

lemma emailsNormalized_registerUser:
  "emailsNormalized w \<Longrightarrow> emailsNormalized (fst (registerUser hash newId w req))"
  by (auto simp: emailsNormalized_def registerUser_def User_create_def Let_def
      users_cleanup users_deleteImgCloudinary toLowerCase_trim toLowerCase_idem trim_idem
      split: option.splits sum.splits if_splits)

lemma emailsNormalized_loginUser:
  "emailsNormalized w \<Longrightarrow> emailsNormalized (fst (loginUser c g w req))"
  by (auto simp: emailsNormalized_def loginUser_def split: option.splits)

lemma emailsNormalized_updateMyProfile:
  assumes "emailsNormalized w"
  shows "emailsNormalized (fst (updateMyProfile w req))"
proof -
  have "\<And>u. User_findById (users w) i = Some u \<Longrightarrow> trim (toLowerCase (email u)) = email u" for i
    using assms User_findById_Some by (fastforce simp: emailsNormalized_def list_all_iff)
  then show ?thesis
    using assms
    by (auto simp: emailsNormalized_def updateMyProfile_def Let_def users_deleteImgCloudinary
      toLowerCase_trim toLowerCase_idem trim_idem
      intro!: list_all_replaceUser split: option.splits if_splits)
qed

lemma emailsNormalized_changeMyPassword:
  assumes "emailsNormalized w"
  shows "emailsNormalized (fst (changeMyPassword h c w req))"
proof -
  have "\<And>u. User_findById (users w) i = Some u \<Longrightarrow> trim (toLowerCase (email u)) = email u" for i
    using assms User_findById_Some by (fastforce simp: emailsNormalized_def list_all_iff)
  then show ?thesis
    using assms
    by (auto simp: emailsNormalized_def changeMyPassword_def Let_def
      intro!: list_all_replaceUser split: option.splits if_splits jsvalue.splits)
qed

lemma emailsNormalized_deleteMyAccount:
  "emailsNormalized w \<Longrightarrow> emailsNormalized (fst (deleteMyAccount w req))"
  by (auto simp: emailsNormalized_def deleteMyAccount_def Let_def users_deleteImgCloudinary
      intro!: list_all_deleteFirst split: option.splits)

lemma emailsNormalized_deleteUser:
  "emailsNormalized w \<Longrightarrow> emailsNormalized (fst (deleteUser w req))"
  by (auto simp: emailsNormalized_def deleteUser_def Let_def users_deleteImgCloudinary
      intro!: list_all_deleteFirst split: option.splits)

lemma emailsNormalized_isAuth:
  "emailsNormalized w \<Longrightarrow> emailsNormalized (fst (isAuth vt R w req))"
  using emailsNormalized_users [OF users_isAuth] by blast

lemma emailsNormalized_authRouter:
  "emailsNormalized w \<Longrightarrow> emailsNormalized (fst (authRouter h c g i w route req))"
  by (cases route)
     (simp_all add: authRouter_def fst_respond emailsNormalized_registerUser
        emailsNormalized_loginUser)

lemma emailsNormalized_usersRouter:
  assumes "emailsNormalized w"
  shows "emailsNormalized (fst (usersRouter vt h c w route req))"
proof (cases "isAuth vt [] w req")
  case (Pair w' r)
  then have w': "emailsNormalized w'"
    using emailsNormalized_isAuth [OF assms, of vt "[]" req] by simp
  show ?thesis
  proof (cases r)
    case (Inl e)
    then show ?thesis using Pair w' by (simp add: usersRouter_def)
  next
    case (Inr req1)
    then show ?thesis
      using Pair w'
      by (cases route)
         (simp_all add: usersRouter_def fst_respond emailsNormalized_updateMyProfile
            emailsNormalized_changeMyPassword emailsNormalized_deleteMyAccount getMyProfile_def
            split: option.split)
  qed
qed

lemma users_handlers:
  "users (fst (getMyAlbums w req)) = users w"
  "users (fst (getAlbumById w req)) = users w"
  "users (fst (postAlbum i n w r1)) = users w"
  "users (fst (updateAlbum w r1)) = users w"
  "users (fst (deleteAlbum w req)) = users w"
  "users (fst (getAllAlbums w req)) = users w"
  "users (fst (getAllUsers w req)) = users w"
  by (auto simp: getMyAlbums_def getAlbumById_def postAlbum_def updateAlbum_def deleteAlbum_def
      getAllAlbums_def getAllUsers_def Let_def users_cleanup users_deleteImgCloudinary
      split: option.splits sum.splits prod.splits if_splits)

lemma emailsNormalized_albumsRouter:
  assumes "emailsNormalized w"
  shows "emailsNormalized (fst (albumsRouter vt i n w route req))"
proof -
  have "users (fst (albumsRouter vt i n w route req)) = users w"
    using users_isAuth [of vt "[]" w req]
    by (cases route)
       (auto simp: albumsRouter_def fst_respond users_handlers
          split: prod.splits sum.splits)
  then show ?thesis using assms by (simp add: emailsNormalized_def)
qed

lemma emailsNormalized_adminRouter:
  assumes "emailsNormalized w"
  shows "emailsNormalized (fst (adminRouter vt w route req))"
proof (cases "isAuth vt [''admin''] w req")
  case (Pair w' r)
  then have w': "emailsNormalized w'"
    using emailsNormalized_isAuth [OF assms, of vt "[''admin'']" req] by simp
  show ?thesis
  proof (cases r)
    case (Inl e)
    then show ?thesis using Pair w' by (simp add: adminRouter_def)
  next
    case (Inr req1)
    then show ?thesis
      using Pair w' emailsNormalized_users [OF users_handlers(5), of w' req1]
      by (cases route)
         (simp_all add: adminRouter_def fst_respond emailsNormalized_deleteUser
            getAllAlbums_def getAllUsers_def)
  qed
qed

text \<open>
  The lookup of \<open>registerUser\<close> is by the normalized email of the request: whenever that is
  the email of a stored user, the request is refused.
\<close>

lemma registerUser_normalized_match:
  assumes "body_email (body req) = Some e"
    and "User_findOne (users w) (trim (toLowerCase e)) = Some x"
  shows "registerUser hash newId w req
           = (w\<lparr>destroyed := destroyed w @
                  (case req_file req of None \<Rightarrow> []
                   | Some f \<Rightarrow> if filename f = [] then [] else [filename f, filename f])\<rparr>,
              Inl (HttpError 400 ''This user already exists''))"
  using assms
  by (simp add: registerUser_def cleanup_def deleteImgCloudinary_def createError_def
      split: option.split)

text \<open>
  C10. In a world whose stored emails are normalized (every world the routers reach from
  the empty one), a registration whose email equals the email of a stored user fails with
  status 400; the users are left as they were, so no record is created; and the public id
  of an uploaded image is handed to \<open>cloudinary.uploader.destroy\<close> (twice: once before the
  \<open>throw\<close>, once in the \<open>catch\<close> block), nothing else being changed.
\<close>

theorem registerUser_existing_email:
  assumes "emailsNormalized w" and "body_email (body req) = Some e"
    and "u \<in> set (users w)" and "email u = e"
  shows "registerUser hash newId w req
           = (w\<lparr>destroyed := destroyed w @
                  (case req_file req of None \<Rightarrow> []
                   | Some f \<Rightarrow> if filename f = [] then [] else [filename f, filename f])\<rparr>,
              Inl (HttpError 400 ''This user already exists''))
       \<and> users (fst (registerUser hash newId w req)) = users w
       \<and> statusCode (snd (respond (registerUser hash newId w req))) = 400"
proof -
  have "trim (toLowerCase e) = e"
    using assms by (auto simp: emailsNormalized_def list_all_iff)
  then obtain x where "User_findOne (users w) (trim (toLowerCase e)) = Some x"
    using User_findOne_member [OF assms(3)] assms(4) by auto
  from registerUser_normalized_match [OF assms(2) this]
  show ?thesis
    by (simp add: respond_def errorHandler_def sendResponse_def)
qed

theorem registerUser_existing_email_witness:
  "registerUser toyHash (ObjectId (hexId ''d9'')) world1
      ((request (no_user_fields\<lparr>body_name := Some ''Eve'', body_email := Some ''alice@x.com'',
          body_password := Some ''12345678''\<rparr>))
         \<lparr>req_file := Some \<lparr>path = ''https://img/eve.png'', filename = ''Craterra/eve''\<rparr>\<rparr>)
     = (world1\<lparr>destroyed := [''Craterra/eve'', ''Craterra/eve'']\<rparr>,
        Inl (HttpError 400 ''This user already exists''))"
proof -
  let ?req = "(request (no_user_fields\<lparr>body_name := Some ''Eve'',
          body_email := Some ''alice@x.com'', body_password := Some ''12345678''\<rparr>))
         \<lparr>req_file := Some \<lparr>path = ''https://img/eve.png'', filename = ''Craterra/eve''\<rparr>\<rparr>"
  have h1: "emailsNormalized world1" by code_simp
  have h2: "body_email (body ?req) = Some ''alice@x.com''" by (simp add: request_def)
  have h3: "alice \<in> set (users world1)" by (simp add: world1_def)
  have h4: "email alice = ''alice@x.com''" by (simp add: alice_def)
  have d: "destroyed world1 = []" by (simp add: world1_def)
  show ?thesis
    using registerUser_existing_email [OF h1 h2 h3 h4, of toyHash "ObjectId (hexId ''d9'')"] d by simp
qed

end
